theory Spec2Isabelle
  imports Complex_Main "HOL-Library.Word"
begin

unbundle bit_operations_syntax

section \<open>Solder reflow hot plate controller (main.cpp)\<close>

text \<open>
  The controller runs on an ATmega328P: \<open>int\<close> is 16 bits wide, \<open>unsigned long\<close> 32 bits,
  \<open>uint8_t\<close> 8 bits, and the analog converter delivers 10 bits.  The machine integers are
  words of these widths.  Values of type \<open>double\<close> and \<open>float\<close> (both are IEEE single
  precision on this target) are modelled as follows.  The temperatures, the tuning constants
  and the working values are real numbers, and their arithmetic is exact, with two
  exceptions: the product that \<open>updateCursorPosition\<close> converts to \<open>int\<close> when the
  configuration is saved is rounded to single precision (\<open>single\<close>), because the
  conversion drops the fraction and so depends on the rounding; and the division by zero
  in \<open>readThermistor\<close> is written out by cases.  The setpoint, the outputs and the internal
  state of the PID objects, which the division by a segment of duration zero in
  \<open>reflowRunning\<close> can make infinite or NaN, have the type \<open>double\<close> below: a real number,
  an infinity or NaN, with the arithmetic of IEEE 754 on the special values.
\<close>

type_synonym uint8 = "8 word"
type_synonym int16 = "16 word"
type_synonym ulong = "32 word"
type_synonym adc = "10 word"

subsection \<open>Conversions between the C types\<close>

definition intOfUint8 :: "uint8 \<Rightarrow> int16" where
  "intOfUint8 b = ucast b"

definition doubleOfInt :: "int16 \<Rightarrow> real" where
  "doubleOfInt n = real_of_int (sint n)"

definition doubleOfUint8 :: "uint8 \<Rightarrow> real" where
  "doubleOfUint8 b = real (unat b)"

text \<open>Conversion of a \<open>double\<close> to \<open>int\<close> drops the fraction (towards zero); a value that
  does not fit 16 bits is reduced modulo \<open>2 ^ 16\<close> here (C++ leaves it undefined).\<close>

definition towardsZero :: "real \<Rightarrow> int" where
  "towardsZero x = (if 0 \<le> x then \<lfloor>x\<rfloor> else \<lceil>x\<rceil>)"

definition intOfDouble :: "real \<Rightarrow> int16" where
  "intOfDouble x = word_of_int (towardsZero x)"

subsection \<open>Floating point values\<close>

text \<open>A value of type \<open>double\<close> that can be infinite or NaN.  The sign of a zero is not
  kept: the zeros by which main.cpp divides are positive (a converted \<open>uint8_t\<close> or a
  difference of equal values), and a division by zero is a division by \<open>+0\<close>.\<close>

datatype double = Fin real | PInf | NInf | NaN

definition infOrNaN :: "real \<Rightarrow> double" where
  "infOrNaN a = (if a = 0 then NaN else if 0 < a then PInf else NInf)"

fun dneg :: "double \<Rightarrow> double" where
  "dneg (Fin a) = Fin (- a)"
| "dneg PInf = NInf"
| "dneg NInf = PInf"
| "dneg NaN = NaN"

fun dadd :: "double \<Rightarrow> double \<Rightarrow> double" where
  "dadd (Fin a) (Fin b) = Fin (a + b)"
| "dadd (Fin a) PInf = PInf"
| "dadd (Fin a) NInf = NInf"
| "dadd PInf (Fin b) = PInf"
| "dadd NInf (Fin b) = NInf"
| "dadd PInf PInf = PInf"
| "dadd NInf NInf = NInf"
| "dadd PInf NInf = NaN"
| "dadd NInf PInf = NaN"
| "dadd NaN y = NaN"
| "dadd x NaN = NaN"

definition dsub :: "double \<Rightarrow> double \<Rightarrow> double" where
  "dsub x y = dadd x (dneg y)"

fun dmul :: "double \<Rightarrow> double \<Rightarrow> double" where
  "dmul (Fin a) (Fin b) = Fin (a * b)"
| "dmul (Fin a) PInf = infOrNaN a"
| "dmul (Fin a) NInf = infOrNaN (- a)"
| "dmul PInf (Fin b) = infOrNaN b"
| "dmul NInf (Fin b) = infOrNaN (- b)"
| "dmul PInf PInf = PInf"
| "dmul NInf NInf = PInf"
| "dmul PInf NInf = NInf"
| "dmul NInf PInf = NInf"
| "dmul NaN y = NaN"
| "dmul x NaN = NaN"

fun ddiv :: "double \<Rightarrow> double \<Rightarrow> double" where
  "ddiv (Fin a) (Fin b) = (if b = 0 then infOrNaN a else Fin (a / b))"
| "ddiv (Fin a) PInf = Fin 0"
| "ddiv (Fin a) NInf = Fin 0"
| "ddiv PInf (Fin b) = (if 0 \<le> b then PInf else NInf)"
| "ddiv NInf (Fin b) = (if 0 \<le> b then NInf else PInf)"
| "ddiv PInf PInf = NaN"
| "ddiv NInf NInf = NaN"
| "ddiv PInf NInf = NaN"
| "ddiv NInf PInf = NaN"
| "ddiv NaN y = NaN"
| "ddiv x NaN = NaN"

text \<open>The comparison \<open>x < y\<close>: false when one side is NaN.\<close>

fun dless :: "double \<Rightarrow> double \<Rightarrow> bool" where
  "dless (Fin a) (Fin b) = (a < b)"
| "dless (Fin a) PInf = True"
| "dless NInf (Fin b) = True"
| "dless NInf PInf = True"
| "dless x y = False"

text \<open>Conversion to \<open>int\<close>, as in \<open>analogWrite(pin, output)\<close>.  For an infinity or NaN
  C++ leaves the result undefined: it is then the value \<open>u\<close>, which a pass takes from
  outside.\<close>

definition intOfDoubleOr :: "int16 \<Rightarrow> double \<Rightarrow> int16" where
  "intOfDoubleOr u x = (case x of Fin a \<Rightarrow> intOfDouble a | _ \<Rightarrow> u)"

text \<open>Rounding of a real number to single precision (24 bits of precision, round to
  nearest, ties to even; below \<open>2 ^ - 126\<close> the spacing of the subnormal numbers).  Overflow
  is not modelled: a value of magnitude \<open>2 ^ 128\<close> or more is rounded like the others.\<close>

definition roundEven :: "real \<Rightarrow> int" where
  "roundEven x =
     (let f = \<lfloor>x\<rfloor>; r = x - of_int f
      in if r < 1 / 2 then f else if 1 / 2 < r then f + 1 else if even f then f else f + 1)"

definition ulp :: "real \<Rightarrow> real" where
  "ulp x = 2 powr (of_int (max \<lfloor>log 2 \<bar>x\<bar>\<rfloor> (- 126) - 23))"

definition single :: "real \<Rightarrow> real" where
  "single x = (if x = 0 then 0 else ulp x * of_int (roundEven (x / ulp x)))"

subsection \<open>The PID objects\<close>

text \<open>
  Modelled from the spec: class \<open>PID\<close> of the library \<open>PID_v1.h\<close> (its constructor,
  \<open>SetMode\<close>, \<open>SetSampleTime\<close> and \<open>Compute\<close>) is included by main.cpp and is not part of
  the sources.  Spec section 4.3: internal state integral accumulator and previous error,
  a fixed sample period, "calls faster than the sample period are no-ops that return the
  last output"; the law \<open>output = Kp e + Ki \<integral>e dt + Kd de/dt\<close>, "clamped to the
  actuator's valid duty-cycle range" (0 to 255, the range of \<open>analogWrite\<close>); AUTOMATIC
  mode drives the output by the law, MANUAL mode holds the output at the externally forced
  value; mode switching does not reset the integral accumulator; the tuning constants are
  read at construction.  Where the setpoint is infinite or NaN the law is evaluated with the
  arithmetic of \<open>double\<close>, and a NaN passes the clamp, whose two comparisons are then
  false.
\<close>

record PID =
  inAuto :: bool
  Kp :: real
  Ki :: real
  Kd :: real
  integral :: double
  prevError :: double
  lastTime :: ulong
  SampleTime :: ulong
  outMin :: real
  outMax :: real

definition PID_new :: "real \<Rightarrow> real \<Rightarrow> real \<Rightarrow> PID" where
  "PID_new p i d =
     \<lparr>inAuto = False, Kp = p, Ki = i, Kd = d, integral = Fin 0, prevError = Fin 0,
      lastTime = 0, SampleTime = 100, outMin = 0, outMax = 255\<rparr>"

definition SetMode :: "bool \<Rightarrow> PID \<Rightarrow> PID" where
  "SetMode automatic pid = pid\<lparr>inAuto := automatic\<rparr>"

definition SetSampleTime :: "ulong \<Rightarrow> PID \<Rightarrow> PID" where
  "SetSampleTime t pid = pid\<lparr>SampleTime := t\<rparr>"

definition clampOutput :: "PID \<Rightarrow> double \<Rightarrow> double" where
  "clampOutput pid x =
     (if dless (Fin (outMax pid)) x then Fin (outMax pid)
      else if dless x (Fin (outMin pid)) then Fin (outMin pid) else x)"

text \<open>\<open>Compute pid now input setpoint output\<close> returns the object and the output variable
  after the call.\<close>

definition Compute :: "PID \<Rightarrow> ulong \<Rightarrow> real \<Rightarrow> double \<Rightarrow> double \<Rightarrow> PID \<times> double" where
  "Compute pid now input setpoint output =
     (if \<not> inAuto pid then (pid, output)
      else if now - lastTime pid < SampleTime pid then (pid, output)
      else
        let e = dsub setpoint (Fin input);
            dt = Fin (real (unat (SampleTime pid)) / 1000);
            acc = dadd (integral pid) (dmul e dt);
            out = dadd (dadd (dmul (Fin (Kp pid)) e) (dmul (Fin (Ki pid)) acc))
                       (dmul (Fin (Kd pid)) (ddiv (dsub e (prevError pid)) dt))
        in (pid\<lparr>integral := acc, prevError := e, lastTime := now\<rparr>, clampOutput pid out))"

subsection \<open>EEPROM read and write routines\<close>

type_synonym eeprom = "nat \<Rightarrow> uint8"

fun writeUInt8TArrayIntoEEPROM :: "nat \<Rightarrow> uint8 list \<Rightarrow> eeprom \<Rightarrow> eeprom" where
  "writeUInt8TArrayIntoEEPROM address [] ee = ee"
| "writeUInt8TArrayIntoEEPROM address (n # numbers) ee =
     writeUInt8TArrayIntoEEPROM (address + 1) numbers (ee(address := n))"

fun writeIntArrayIntoEEPROM :: "nat \<Rightarrow> int16 list \<Rightarrow> eeprom \<Rightarrow> eeprom" where
  "writeIntArrayIntoEEPROM address [] ee = ee"
| "writeIntArrayIntoEEPROM address (n # numbers) ee =
     writeIntArrayIntoEEPROM (address + 2) numbers
       (ee(address := ucast (drop_bit 8 n), address + 1 := ucast (n AND 0xFF)))"

fun readUInt8TArrayFromEEPROM :: "eeprom \<Rightarrow> nat \<Rightarrow> nat \<Rightarrow> uint8 list" where
  "readUInt8TArrayFromEEPROM ee address 0 = []"
| "readUInt8TArrayFromEEPROM ee address (Suc arraySize) =
     ee address # readUInt8TArrayFromEEPROM ee (address + 1) arraySize"

fun readIntArrayFromEEPROM :: "eeprom \<Rightarrow> nat \<Rightarrow> nat \<Rightarrow> int16 list" where
  "readIntArrayFromEEPROM ee address 0 = []"
| "readIntArrayFromEEPROM ee address (Suc arraySize) =
     (push_bit 8 (intOfUint8 (ee address)) + intOfUint8 (ee (address + 1)))
       # readIntArrayFromEEPROM ee (address + 2) arraySize"

subsection \<open>Thermistor acquisition\<close>

definition Numsamples :: nat where "Numsamples = 5"
definition SERIESRESISTOR :: real where "SERIESRESISTOR = 100000"
definition THERMISTORNOMINAL :: real where "THERMISTORNOMINAL = 120000"
definition TEMPERATURENOMINAL :: real where "TEMPERATURENOMINAL = 25"
definition BCOEFFICIENT :: real where "BCOEFFICIENT = 3950"

text \<open>What one call of \<open>readThermistor\<close> takes from outside: the results of the calls of
  \<open>analogRead\<close> on the two pins (by sample index), and for each channel the value that the
  local variable \<open>thermistorNFailCounter\<close> holds after the statement
  \<open>thermistorNFailCounter = thermistorNFailCounter++\<close>.  The variable is declared without
  an initialiser and is not static, so this value is indeterminate.\<close>

record reading =
  adc1 :: "nat \<Rightarrow> adc"
  adc2 :: "nat \<Rightarrow> adc"
  junk1 :: uint8
  junk2 :: uint8

fun sumSamples :: "(nat \<Rightarrow> adc) \<Rightarrow> nat \<Rightarrow> real" where
  "sumSamples samples 0 = 0"
| "sumSamples samples (Suc i) = sumSamples samples i + real (unat (samples i))"

definition average :: "(nat \<Rightarrow> adc) \<Rightarrow> real" where
  "average samples = sumSamples samples Numsamples / real Numsamples"

text \<open>The conversion of the averaged sample to degrees Celsius.  For an average of 0 the
  code divides by zero: the resistance is \<open>+\<infinity>\<close>, its logarithm too, the inverse is 0 and
  the result \<open>-273.15\<close>.  For an average of 1023 the resistance is 0, its logarithm
  \<open>-\<infinity>\<close>, the inverse \<open>-0\<close> and the result again \<open>-273.15\<close>.\<close>

definition steinhart :: "real \<Rightarrow> real" where
  "steinhart avg =
     (if avg = 0 then - 273.15
      else
        let r = ((1023 * SERIESRESISTOR) - (avg * SERIESRESISTOR)) / avg
        in if r = 0 then - 273.15
           else 1.0 / (ln (r / THERMISTORNOMINAL) / BCOEFFICIENT
                       + 1.0 / (TEMPERATURENOMINAL + 273.15)) - 273.15)"

text \<open>The failure counter after \<open>if (thermistorNBuffer = steinhartN) ... else ...\<close>: the
  condition assigns the new reading to the buffer and is true when that value is not
  zero.\<close>

definition failCounter :: "real \<Rightarrow> uint8 \<Rightarrow> uint8" where
  "failCounter assigned junk = (if assigned \<noteq> 0 then junk else 0)"

definition failFlag :: "real \<Rightarrow> uint8 \<Rightarrow> bool" where
  "failFlag temp counter = (temp < - 20 \<or> 3 \<le> counter)"

subsection \<open>The global variables\<close>

text \<open>
  The state of the program: the global variables of main.cpp that the control and menu
  logic reads, the two PID objects, the EEPROM and the values last written to the two PWM
  pins.  Arrays are lists of their declared length.  Left out are the cursor position
  \<open>curPos\<close> and the drawing calls of the display, the variables that are only written
  (\<open>protectedMenuCounter\<close>, \<open>previousMenuCounter\<close>) or never used.
\<close>

record hotplate =
  steinhart1 :: real
  steinhart2 :: real
  T1Disp :: real
  T2Disp :: real
  thermistor1Buffer :: real
  thermistor2Buffer :: real
  thermistor1Fail :: bool
  thermistor2Fail :: bool
  tempCounter :: int16
  menuCounter :: int16
  selectCounter :: int16
  encSW :: bool
  menuIndex :: uint8
  selectIndexMax :: uint8
  running :: bool
  selectFlag :: bool
  startConfirm :: bool
  wrkInt :: uint8
  wrkDouble :: real
  parametersReflow :: "uint8 list"
  parametersPID :: "real list"
  parametersPIDint :: "int16 list"
  pid_Setpoint :: double
  pid1_Input :: real
  pid1_Output :: double
  pid2_Input :: real
  pid2_Output :: double
  runningBuffer :: bool
  runningState :: uint8
  time_now :: ulong
  runningSecondCounter :: int16
  initTempSnapshot :: real
  constTempSP :: uint8
  runningMode :: bool
  hotPlate1PID :: PID
  hotPlate2PID :: PID
  EEPROM :: eeprom
  pwm1 :: int16
  pwm2 :: int16

text \<open>What one pass of \<open>loop\<close> takes from outside: whether the push button is pressed
  (\<open>digitalRead(encSW_inp)\<close> is low), the value of \<open>millis()\<close> during the pass, the
  acquisition made in the body of \<open>loop\<close> (at the start of a run, or by the 10 second
  timer), the acquisition made by the running logic, and the value that the conversion of
  an infinite or NaN output to \<open>int\<close> yields.\<close>

record env =
  button :: bool
  millis :: ulong
  readA :: reading
  readB :: reading
  undefinedInt :: int16

subsection \<open>Interrupt routines of the rotary encoder\<close>

text \<open>The arguments are the levels of the pins CLK and DT read by the routine.\<close>

definition encoderCount :: "hotplate \<Rightarrow> hotplate" where
  "encoderCount s =
     (let s = (if selectFlag s then s\<lparr>selectCounter := selectCounter s + tempCounter s\<rparr>
               else if 0 < sint (tempCounter s) \<and> sint (menuCounter s) < uint (selectIndexMax s)
                 then s\<lparr>menuCounter := menuCounter s + 1\<rparr>
               else if sint (tempCounter s) < 0 \<and> 1 < sint (menuCounter s)
                 then s\<lparr>menuCounter := menuCounter s - 1\<rparr>
               else s)
      in s\<lparr>tempCounter := 0\<rparr>)"

definition isrEncCLK :: "bool \<Rightarrow> bool \<Rightarrow> hotplate \<Rightarrow> hotplate" where
  "isrEncCLK readCLK readDT s =
     encoderCount (if readDT \<noteq> readCLK then s\<lparr>tempCounter := tempCounter s + 1\<rparr>
                   else s\<lparr>tempCounter := tempCounter s - 1\<rparr>)"

definition isrEncDT :: "bool \<Rightarrow> bool \<Rightarrow> hotplate \<Rightarrow> hotplate" where
  "isrEncDT readCLK readDT s =
     encoderCount (if readCLK = readDT then s\<lparr>tempCounter := tempCounter s + 1\<rparr>
                   else s\<lparr>tempCounter := tempCounter s - 1\<rparr>)"

subsection \<open>Temperature readings and failure flags\<close>

definition readThermistor :: "reading \<Rightarrow> hotplate \<Rightarrow> hotplate" where
  "readThermistor rd s =
     (let s = s\<lparr>thermistor1Buffer := steinhart1 s, thermistor2Buffer := steinhart2 s\<rparr>;
          s = s\<lparr>steinhart1 := steinhart (average (adc1 rd)),
                steinhart2 := steinhart (average (adc2 rd))\<rparr>;
          s = s\<lparr>thermistor1Buffer := steinhart1 s\<rparr>;
          thermistor1FailCounter = failCounter (thermistor1Buffer s) (junk1 rd);
          s = s\<lparr>thermistor2Buffer := steinhart2 s\<rparr>;
          thermistor2FailCounter = failCounter (thermistor2Buffer s) (junk2 rd)
      in s\<lparr>thermistor1Fail := failFlag (steinhart1 s) thermistor1FailCounter,
            thermistor2Fail := failFlag (steinhart2 s) thermistor2FailCounter\<rparr>)"

subsection \<open>Parameter calculations\<close>

text \<open>An index outside the array is undefined behaviour: the model stops with \<open>None\<close>.\<close>

definition calcParameters :: "hotplate \<Rightarrow> hotplate option" where
  "calcParameters s =
     Option.bind
       (if menuIndex s = 3 then
          (let i = sint (menuCounter s) - 1 in
           if 0 \<le> i \<and> i < int (length (parametersReflow s)) then
             (let s = s\<lparr>wrkInt := ucast (selectCounter s + intOfUint8 (parametersReflow s ! nat i))\<rparr>
              in Some (if encSW s
                       then s\<lparr>parametersReflow := (parametersReflow s)[nat i := wrkInt s],
                               selectCounter := 0, wrkInt := 0, wrkDouble := 0\<rparr>
                       else s))
           else None)
        else Some s)
     (\<lambda>s. Option.bind
       (if menuIndex s = 4 then
          (let i = sint (menuCounter s) - 1 in
           if 0 \<le> i \<and> i < int (length (parametersPID s)) then
             (let s = s\<lparr>wrkDouble := doubleOfInt (selectCounter s) * 0.01 + parametersPID s ! nat i\<rparr>;
                  s = (if wrkDouble s < 0 then s\<lparr>wrkDouble := 0\<rparr> else s)
              in Some (if encSW s
                       then s\<lparr>parametersPID := (parametersPID s)[nat i := wrkDouble s],
                               selectCounter := 0, wrkInt := 0, wrkDouble := 0\<rparr>
                       else s))
           else None)
        else Some s)
     (\<lambda>s.
       (if menuIndex s = 98 then
          (let s = s\<lparr>wrkInt := ucast (selectCounter s + intOfUint8 (constTempSP s))\<rparr>
           in Some (if encSW s
                    then s\<lparr>constTempSP := wrkInt s, selectCounter := 0, wrkInt := 0, wrkDouble := 0\<rparr>
                    else s))
        else Some s)))"

subsection \<open>The PID loops\<close>

definition pidLoop1 :: "env \<Rightarrow> hotplate \<Rightarrow> hotplate" where
  "pidLoop1 e s =
     (let s = s\<lparr>pid1_Input := steinhart1 s\<rparr>;
          (pid, out) = Compute (hotPlate1PID s) (millis e) (pid1_Input s) (pid_Setpoint s) (pid1_Output s);
          s = s\<lparr>hotPlate1PID := pid, pid1_Output := out\<rparr>
      in s\<lparr>pwm1 := intOfDoubleOr (undefinedInt e) (pid1_Output s)\<rparr>)"

definition pidLoop2 :: "env \<Rightarrow> hotplate \<Rightarrow> hotplate" where
  "pidLoop2 e s =
     (let s = s\<lparr>pid2_Input := steinhart2 s\<rparr>;
          (pid, out) = Compute (hotPlate2PID s) (millis e) (pid2_Input s) (pid_Setpoint s) (pid2_Output s);
          s = s\<lparr>hotPlate2PID := pid, pid2_Output := out\<rparr>
      in s\<lparr>pwm2 := intOfDoubleOr (undefinedInt e) (pid2_Output s)\<rparr>)"

subsection \<open>Menu navigation and encoder selection handling\<close>

text \<open>When the configuration is saved (menu 5), each tuning constant is multiplied by 100
  and converted to \<open>int\<close>.  The constant that the program holds is the single precision
  value \<open>single p\<close> of the field \<open>p\<close>, and the product is rounded to single precision before
  the conversion drops its fraction.\<close>

definition updateCursorPosition :: "hotplate \<Rightarrow> hotplate" where
  "updateCursorPosition s =
     (if menuIndex s = 0 then
        (if encSW s then
           (let s = (if menuCounter s = 1 then s\<lparr>runningMode := True, startConfirm := True, menuIndex := 1\<rparr>
                     else if menuCounter s = 2 then s\<lparr>runningMode := False, startConfirm := True, menuIndex := 1\<rparr>
                     else if menuCounter s = 3 then s\<lparr>menuIndex := 2\<rparr>
                     else s)
            in s\<lparr>menuCounter := 1\<rparr>)
         else s)
      else if menuIndex s = 1 then
        (if encSW s then
           (let s = (if menuCounter s = 1 then
                       (if startConfirm s
                        then s\<lparr>running := False, menuIndex := 0, menuCounter := 1, startConfirm := False\<rparr>
                        else s\<lparr>running := True, menuIndex := (if runningMode s then 99 else 98),
                                menuCounter := 1\<rparr>)
                     else s)
            in (if menuCounter s = 2 then
                  (if startConfirm s
                   then s\<lparr>running := True, menuIndex := (if runningMode s then 99 else 98),
                           menuCounter := 1, startConfirm := False\<rparr>
                   else s\<lparr>running := False, menuIndex := 0, menuCounter := 1\<rparr>)
                else s))
         else s)
      else if menuIndex s = 2 then
        (if encSW s then
           (if menuCounter s = 4 then s\<lparr>menuIndex := 0, menuCounter := 1\<rparr>
            else s\<lparr>menuIndex := ucast (menuCounter s + 2), menuCounter := 1\<rparr>)
         else s)
      else if menuIndex s = 3 then
        (if encSW s then
           (if menuCounter s = 8 then s\<lparr>menuIndex := 2, menuCounter := 1\<rparr>
            else s\<lparr>selectFlag := \<not> selectFlag s\<rparr>)
         else s)
      else if menuIndex s = 4 then
        (if encSW s then
           (if menuCounter s = 7 then s\<lparr>menuIndex := 2, menuCounter := 1\<rparr>
            else s\<lparr>selectFlag := \<not> selectFlag s\<rparr>)
         else s)
      else if menuIndex s = 5 then
        (let s = s\<lparr>EEPROM := writeUInt8TArrayIntoEEPROM 1 (take 7 (parametersReflow s)) (EEPROM s)\<rparr>;
             s = s\<lparr>parametersPIDint :=
                     map (\<lambda>p. intOfDouble (single (single p * 100))) (take 6 (parametersPID s))\<rparr>;
             s = s\<lparr>EEPROM := writeIntArrayIntoEEPROM 8 (take 6 (parametersPIDint s)) (EEPROM s)\<rparr>
         in s\<lparr>menuIndex := 2, menuCounter := 1\<rparr>)
      else if menuIndex s = 98 then
        (if encSW s then
           (if menuCounter s = 2 then s\<lparr>startConfirm := False, menuIndex := 1, menuCounter := 1\<rparr>
            else s\<lparr>selectFlag := \<not> selectFlag s\<rparr>)
         else s)
      else if menuIndex s = 99 then
        (if encSW s then s\<lparr>startConfirm := False, menuIndex := 1, menuCounter := 1\<rparr> else s)
      else s)"

text \<open>Of \<open>updateDisplay\<close> only the assignments to \<open>selectIndexMax\<close> are kept; the menus are
  drawn, and \<open>selectIndexMax\<close> set, only while no failure flag is raised.\<close>

definition updateDisplay :: "hotplate \<Rightarrow> hotplate" where
  "updateDisplay s =
     (if \<not> thermistor1Fail s \<and> \<not> thermistor2Fail s then
        (if menuIndex s = 0 then s\<lparr>selectIndexMax := 3\<rparr>
         else if menuIndex s = 1 then s\<lparr>selectIndexMax := 2\<rparr>
         else if menuIndex s = 2 then s\<lparr>selectIndexMax := 4\<rparr>
         else if menuIndex s = 3 then s\<lparr>selectIndexMax := 8\<rparr>
         else if menuIndex s = 4 then s\<lparr>selectIndexMax := 7\<rparr>
         else if menuIndex s = 98 then s\<lparr>selectIndexMax := 2\<rparr>
         else if menuIndex s = 99 then s\<lparr>selectIndexMax := 1\<rparr>
         else s)
      else s)"

subsection \<open>Running state logic\<close>

text \<open>The \<open>switch (runningState)\<close> of \<open>reflowRunning\<close>.  A segment of duration zero divides
  by zero: the slope, and with it the setpoint, is then an infinity or NaN, and the pass
  goes on with it.\<close>

definition reflowSwitch :: "hotplate \<Rightarrow> hotplate" where
  "reflowSwitch s =
     (let p = (\<lambda>i. doubleOfUint8 (parametersReflow s ! i));
          t = runningSecondCounter s
      in
      if runningState s = 1 then
        (s\<lparr>pid_Setpoint :=
              dadd (dmul (dsub (ddiv (Fin (p 0 - initTempSnapshot s)) (Fin (p 1))) (Fin 0))
                         (Fin (doubleOfInt t)))
                   (Fin (initTempSnapshot s))\<rparr>)
          \<lparr>runningState := (if uint (parametersReflow s ! 1) \<le> sint t then 2 else 1)\<rparr>
      else if runningState s = 2 then
        (s\<lparr>pid_Setpoint :=
              dadd (dmul (ddiv (Fin (p 2 - p 0)) (Fin (p 3 - p 1))) (Fin (doubleOfInt t - p 1)))
                   (Fin (p 0))\<rparr>)
          \<lparr>runningState := (if uint (parametersReflow s ! 3) \<le> sint t then 3 else 2)\<rparr>
      else if runningState s = 3 then
        (s\<lparr>pid_Setpoint :=
              dadd (dmul (ddiv (Fin (p 4 - p 2)) (Fin (p 5 - p 3))) (Fin (doubleOfInt t - p 3)))
                   (Fin (p 2))\<rparr>)
          \<lparr>runningState := (if uint (parametersReflow s ! 5) \<le> sint t then 4 else 3)\<rparr>
      else if runningState s = 4 then
        (s\<lparr>pid_Setpoint := Fin (p 4)\<rparr>)
          \<lparr>runningState :=
             (if uint (parametersReflow s ! 5) + uint (parametersReflow s ! 6) \<le> sint t
              then 5 else 4)\<rparr>
      else if runningState s = 5 then
        s\<lparr>pid_Setpoint := Fin 0,
          hotPlate1PID := SetMode False (hotPlate1PID s),
          hotPlate2PID := SetMode False (hotPlate2PID s),
          pid1_Output := Fin 0, pid2_Output := Fin 0\<rparr>
      else s)"

definition reflowRunning :: "env \<Rightarrow> hotplate \<Rightarrow> hotplate" where
  "reflowRunning e s =
     (let s = readThermistor (readB e) s;
          s = s\<lparr>hotPlate1PID := SetMode True (hotPlate1PID s),
                hotPlate2PID := SetMode True (hotPlate2PID s)\<rparr>;
          s = (if runningState s < 5 then
                 (if 1000 < millis e - time_now s then
                    (let s = s\<lparr>time_now := millis e\<rparr>;
                         s = s\<lparr>runningSecondCounter := runningSecondCounter s + 1\<rparr>
                     in s\<lparr>T1Disp := steinhart1 s, T2Disp := steinhart2 s\<rparr>)
                  else s)
               else s);
          s = reflowSwitch s
      in pidLoop2 e (pidLoop1 e s))"

definition constTempRunning :: "env \<Rightarrow> hotplate \<Rightarrow> hotplate" where
  "constTempRunning e s =
     (let s = readThermistor (readB e) s;
          s = s\<lparr>pid_Setpoint := Fin (doubleOfUint8 (constTempSP s))\<rparr>;
          s = s\<lparr>hotPlate1PID := SetMode True (hotPlate1PID s),
                hotPlate2PID := SetMode True (hotPlate2PID s)\<rparr>;
          s = (if 1000 < millis e - time_now s then
                 (let s = s\<lparr>time_now := millis e\<rparr>
                  in s\<lparr>T1Disp := steinhart1 s, T2Disp := steinhart2 s\<rparr>)
               else s)
      in pidLoop2 e (pidLoop1 e s))"

subsection \<open>Initial values, \<open>setup()\<close> and \<open>loop()\<close>\<close>

text \<open>The initialisers of the global variables.  The two PID objects are constructed from
  the initial values of \<open>parametersPID\<close>; the EEPROM holds what earlier runs left there.\<close>

definition initial :: "eeprom \<Rightarrow> hotplate" where
  "initial ee =
     (let pid = [3.30, 0.02, 3.45, 3.30, 0.02, 3.45] in
      \<lparr>steinhart1 = 0.0, steinhart2 = 0.0, T1Disp = 0.0, T2Disp = 0.0,
       thermistor1Buffer = 0.0, thermistor2Buffer = 0.0,
       thermistor1Fail = False, thermistor2Fail = False,
       tempCounter = 0, menuCounter = 1, selectCounter = 0, encSW = False,
       menuIndex = 0, selectIndexMax = 1, running = False, selectFlag = False,
       startConfirm = False, wrkInt = 0, wrkDouble = 0.0,
       parametersReflow = [115, 100, 145, 155, 185, 180, 35],
       parametersPID = pid,
       parametersPIDint = [0, 0, 0, 0, 0, 0],
       pid_Setpoint = Fin 0, pid1_Input = 0, pid1_Output = Fin 0, pid2_Input = 0,
       pid2_Output = Fin 0,
       runningBuffer = False, runningState = 0, time_now = 0, runningSecondCounter = 0,
       initTempSnapshot = 25.0, constTempSP = 35, runningMode = False,
       hotPlate1PID = PID_new (pid ! 0) (pid ! 1) (pid ! 2),
       hotPlate2PID = PID_new (pid ! 3) (pid ! 4) (pid ! 5),
       EEPROM = ee, pwm1 = 0, pwm2 = 0\<rparr>)"

definition setup_main :: "reading \<Rightarrow> hotplate \<Rightarrow> hotplate" where
  "setup_main rd s =
     (let parametersReflowREAD = readUInt8TArrayFromEEPROM (EEPROM s) 1 7;
          s = s\<lparr>parametersReflow := parametersReflowREAD\<rparr>;
          parametersPIDREAD = readIntArrayFromEEPROM (EEPROM s) 8 6;
          s = s\<lparr>parametersPID := map (\<lambda>n. doubleOfInt n / 100) parametersPIDREAD\<rparr>;
          s = s\<lparr>hotPlate1PID := SetSampleTime 200 (hotPlate1PID s),
                hotPlate2PID := SetSampleTime 200 (hotPlate2PID s)\<rparr>;
          s = s\<lparr>pid_Setpoint := Fin 50\<rparr>;
          s = s\<lparr>hotPlate1PID := SetMode False (hotPlate1PID s),
                hotPlate2PID := SetMode False (hotPlate2PID s)\<rparr>
      in readThermistor rd s)"

definition loop :: "env \<Rightarrow> hotplate \<Rightarrow> hotplate option" where
  "loop e s =
     (let s = s\<lparr>encSW := button e\<rparr> in
      Option.bind (if selectFlag s then calcParameters s else Some s)
      (\<lambda>s.
        let s = updateCursorPosition s;
            s = updateDisplay s;
            s = (if running s \<and> \<not> runningBuffer s then
                   (let s = s\<lparr>runningSecondCounter := 0\<rparr>;
                        s = readThermistor (readA e) s;
                        s = s\<lparr>initTempSnapshot := (steinhart1 s + steinhart2 s) / 2\<rparr>
                    in s\<lparr>runningState := 1\<rparr>)
                 else s);
            s = (if \<not> running s then
                   (let s = s\<lparr>pid_Setpoint := Fin 0,
                               hotPlate1PID := SetMode False (hotPlate1PID s),
                               hotPlate2PID := SetMode False (hotPlate2PID s),
                               pid1_Output := Fin 0, pid2_Output := Fin 0, pwm1 := 0, pwm2 := 0\<rparr>;
                        s = (if 10000 < millis e - time_now s
                             then readThermistor (readA e) (s\<lparr>time_now := millis e\<rparr>)
                             else s)
                    in s\<lparr>initTempSnapshot := 0\<rparr>)
                 else s);
            s = (if running s \<and> runningMode s then reflowRunning e s
                 else if running s \<and> \<not> runningMode s then constTempRunning e s
                 else s)
        in Some (s\<lparr>runningBuffer := running s\<rparr>)))"

section \<open>Concrete inputs\<close>

text \<open>An erased EEPROM reads \<open>0xFF\<close> at every address.\<close>

definition erased :: eeprom where
  "erased = (\<lambda>address. 0xFF)"

text \<open>Two states in which an edit is confirmed by the push button: the ramp temperature
  of the reflow profile with 200 steps of the encoder pending, and the constant
  temperature setpoint with 40 steps backwards pending.\<close>

definition editT1 :: hotplate where
  "editT1 = (initial erased)\<lparr>menuIndex := 3, menuCounter := 1, selectFlag := True,
                              selectCounter := 200, encSW := True\<rparr>"

definition editSP :: hotplate where
  "editSP = (initial erased)\<lparr>menuIndex := 98, menuCounter := 1, selectFlag := True,
                              running := True, selectCounter := - 40, encSW := True\<rparr>"

text \<open>An acquisition at 25 degrees: both channels sample 465 counts, where the thermistor
  has its nominal resistance; the failure counters hold 0.\<close>

definition reading25 :: reading where
  "reading25 = \<lparr>adc1 = (\<lambda>i. 465), adc2 = (\<lambda>i. 465), junk1 = 0, junk2 = 0\<rparr>"

text \<open>The configuration is being saved (menu 5): once with the built-in values, once after
  \<open>Kp1\<close> has been edited up to 400.\<close>

definition saved :: hotplate where
  "saved = (initial erased)\<lparr>menuIndex := 5\<rparr>"


text \<open>The store after the built-in configuration has been saved, and the state after a
  boot from it, at 25 degrees.\<close>

definition stored :: eeprom where
  "stored = EEPROM (updateCursorPosition saved)"

definition booted :: hotplate where
  "booted = setup_main reading25 (initial stored)"

text \<open>The confirm dialog for the start of a reflow run, with the cursor on YES; a pass of
  \<open>loop\<close> with the button released; a reflow run that has reached COOLING.\<close>

definition confirmStart :: hotplate where
  "confirmStart = booted\<lparr>menuIndex := 1, menuCounter := 2, selectIndexMax := 2,
                          startConfirm := True, runningMode := True\<rparr>"

definition released :: env where
  "released = \<lparr>button = False, millis = 6500, readA = reading25, readB = reading25,
                undefinedInt = 0\<rparr>"

definition cooling :: hotplate where
  "cooling = booted\<lparr>menuIndex := 99, selectIndexMax := 1, running := True,
                     runningBuffer := True, runningMode := True, runningState := 5,
                     runningSecondCounter := 215, initTempSnapshot := 25\<rparr>"

text \<open>A reflow run in its last second of REFLOW: state 4, 214 seconds counted, the PID
  objects in AUTOMATIC mode as every pass of the run leaves them.\<close>

definition lastReflow :: hotplate where
  "lastReflow = booted\<lparr>menuIndex := 99, selectIndexMax := 1, running := True,
                        runningBuffer := True, runningMode := True, runningState := 4,
                        runningSecondCounter := 214, initTempSnapshot := 25,
                        pid_Setpoint := Fin 185,
                        hotPlate1PID := SetMode True (hotPlate1PID booted),
                        hotPlate2PID := SetMode True (hotPlate2PID booted)\<rparr>"

section \<open>Runs and their invariants\<close>

text \<open>Consecutive passes of \<open>loop\<close>, with the state after each pass.\<close>

fun passes :: "env list \<Rightarrow> hotplate \<Rightarrow> hotplate list option" where
  "passes [] s = Some []"
| "passes (e # es) s =
     (case loop e s of
        None \<Rightarrow> None
      | Some s' \<Rightarrow> (case passes es s' of None \<Rightarrow> None | Some tr \<Rightarrow> Some (s' # tr)))"

text \<open>The built-in reflow profile (MG Chemicals 4902P).\<close>

definition profile4902P :: "uint8 list" where
  "profile4902P = [115, 100, 145, 155, 185, 180, 35]"

text \<open>Between two passes of a reflow run with this profile and a snapshot of 25 degrees,
  the state of the profile and the second counter are related as follows.\<close>

definition reflowInv :: "hotplate \<Rightarrow> bool" where
  "reflowInv s \<longleftrightarrow>
     parametersReflow s = profile4902P \<and> initTempSnapshot s = 25 \<and>
     (let t = sint (runningSecondCounter s); st = runningState s
      in st = 1 \<and> 0 \<le> t \<and> t < 100 \<or> st = 2 \<and> 100 \<le> t \<and> t < 155
         \<or> st = 3 \<and> 155 \<le> t \<and> t < 180 \<or> st = 4 \<and> 180 \<le> t \<and> t < 215
         \<or> st = 5 \<and> t = 215)"

definition setpointOk :: "hotplate \<Rightarrow> bool" where
  "setpointOk s \<longleftrightarrow>
     (let t = sint (runningSecondCounter s); sp = pid_Setpoint s
      in (t = 0 \<longrightarrow> sp = Fin 25) \<and> (t = 100 \<longrightarrow> sp = Fin 115) \<and> (t = 155 \<longrightarrow> sp = Fin 145)
         \<and> (t = 180 \<longrightarrow> sp = Fin 185) \<and> (180 \<le> t \<and> t < 215 \<longrightarrow> sp = Fin 185))"

text \<open>The timer of \<open>reflowRunning\<close> and \<open>constTempRunning\<close>,
  \<open>if (millis() - time_now > period) { time_now = millis(); ... }\<close>, left running over
  consecutive passes: the number of periods that have elapsed after each pass, when
  \<open>time_now\<close> is \<open>t0\<close> and \<open>c\<close> periods have elapsed before the first of them.\<close>

fun elapsed :: "ulong \<Rightarrow> nat \<Rightarrow> env list \<Rightarrow> nat list" where
  "elapsed t0 c [] = []"
| "elapsed t0 c (e # es) =
     (if 1000 < millis e - t0 then Suc c # elapsed (millis e) (Suc c) es
      else c # elapsed t0 c es)"

text \<open>While a reflow run goes on and the encoder is not turned, the display shows the
  running screen or the stop dialog with the cursor on NO.\<close>

definition runInv :: "hotplate \<Rightarrow> bool" where
  "runInv s \<longleftrightarrow>
     running s \<and> runningBuffer s \<and> runningMode s \<and> menuCounter s = 1
     \<and> (menuIndex s = 99 \<or> menuIndex s = 1 \<and> \<not> startConfirm s) \<and> reflowInv s"

section \<open>Events and concrete runs\<close>

text \<open>What happens to the controller: a pass of \<open>loop\<close>, or an edge on one of the two
  encoder pins, served by its interrupt routine between two passes.\<close>

datatype event = Pass env | EncCLK bool bool | EncDT bool bool

fun run :: "event list \<Rightarrow> hotplate \<Rightarrow> hotplate option" where
  "run [] s = Some s"
| "run (Pass e # evs) s = Option.bind (loop e s) (run evs)"
| "run (EncCLK clk dt # evs) s = run evs (isrEncCLK clk dt s)"
| "run (EncDT clk dt # evs) s = run evs (isrEncDT clk dt s)"

text \<open>The tuning constants held by a PID object.\<close>

definition gains :: "PID \<Rightarrow> real \<times> real \<times> real" where
  "gains pid = (Kp pid, Ki pid, Kd pid)"

text \<open>A pass with the button state, the time and one acquisition for both reads.\<close>

definition pass :: "bool \<Rightarrow> ulong \<Rightarrow> reading \<Rightarrow> env" where
  "pass b t rd = \<lparr>button = b, millis = t, readA = rd, readB = rd, undefinedInt = 0\<rparr>"

text \<open>A run of \<open>m\<close> passes, one every 1001 milliseconds, at 25 degrees and with the button
  released; and the pass that starts a run, 500 milliseconds after the boot.\<close>

definition everySecond :: "nat \<Rightarrow> env list" where
  "everySecond m = map (\<lambda>k. pass False (of_nat k * 1001) reading25) [Suc 0..<Suc 0 + m]"

definition startPass :: env where
  "startPass = pass True 500 reading25"

text \<open>Thermistor 1 open: its divider reads 0 counts; thermistor 2 at 25 degrees.\<close>

definition openCircuit1 :: reading where
  "openCircuit1 = \<lparr>adc1 = (\<lambda>i. 0), adc2 = (\<lambda>i. 465), junk1 = 0, junk2 = 0\<rparr>"

text \<open>An acquisition at 25 degrees in which the uninitialised failure counter of channel 1
  holds 3.\<close>

definition stale3 :: reading where
  "stale3 = \<lparr>adc1 = (\<lambda>i. 465), adc2 = (\<lambda>i. 465), junk1 = 3, junk2 = 0\<rparr>"

text \<open>From the main menu: press on "Start Reflow", turn to YES, press.  The run starts in
  the last pass.  Then a pass during which thermistor 1 is open, then a pass during which
  it reads 25 degrees again; the button is not touched.\<close>

definition startReflow :: "event list" where
  "startReflow = [Pass (pass True 5000 reading25), EncCLK True False,
                  Pass (pass True 7000 reading25)]"

definition sensorFault :: "event list" where
  "sensorFault = startReflow @ [Pass (pass False 7300 openCircuit1)]"

definition sensorBack :: "event list" where
  "sensorBack = sensorFault @ [Pass (pass False 7600 reading25)]"

text \<open>From the main menu: turn to "Configuration", press, turn to "PID Parameters", press,
  press on \<open>Kp1\<close> to edit it, turn one step forward, press to confirm.\<close>

definition tuneKp1 :: "event list" where
  "tuneKp1 = [Pass (pass False 1000 reading25), EncCLK True False, EncCLK True False,
              Pass (pass True 2000 reading25), EncCLK True False,
              Pass (pass True 3000 reading25), Pass (pass True 4000 reading25),
              EncCLK True False, Pass (pass True 5000 reading25)]"

text \<open>The block of \<open>calcParameters\<close> for the reflow profile (menu 3) in two parts: the
  statement that computes \<open>wrkInt\<close> from \<open>selectCounter\<close> (line 208), and the conditional
  that stores it and clears \<open>selectCounter\<close> (lines 210 to 215).  \<open>loop\<close> has called
  \<open>interrupts()\<close> before \<open>calcParameters\<close>, and \<open>calcParameters\<close> does not call
  \<open>noInterrupts()\<close>, so an interrupt routine of the encoder can run between the two parts:
  \<open>calcReflowInterrupted\<close> is the block with one step forward of the encoder served there.\<close>

definition calcReflowWork :: "hotplate \<Rightarrow> hotplate option" where
  "calcReflowWork s =
     (let i = sint (menuCounter s) - 1 in
      if 0 \<le> i \<and> i < int (length (parametersReflow s))
      then Some (s\<lparr>wrkInt := ucast (selectCounter s + intOfUint8 (parametersReflow s ! nat i))\<rparr>)
      else None)"

definition calcReflowCommit :: "hotplate \<Rightarrow> hotplate option" where
  "calcReflowCommit s =
     (if encSW s then
        (let i = sint (menuCounter s) - 1 in
         if 0 \<le> i \<and> i < int (length (parametersReflow s))
         then Some (s\<lparr>parametersReflow := (parametersReflow s)[nat i := wrkInt s],
                      selectCounter := 0, wrkInt := 0, wrkDouble := 0\<rparr>)
         else None)
      else Some s)"

definition calcReflowInterrupted :: "hotplate \<Rightarrow> hotplate option" where
  "calcReflowInterrupted s =
     Option.bind (calcReflowWork s) (\<lambda>s. calcReflowCommit (isrEncCLK True False s))"

text \<open>A reflow run after a boot from an erased store, where every field of the profile is
  255: the ramp is over and the soak segment has the duration zero.\<close>

definition erasedRun :: hotplate where
  "erasedRun = (setup_main reading25 (initial erased))
                 \<lparr>menuIndex := 99, selectIndexMax := 1, running := True, runningBuffer := True,
                  runningMode := True, runningState := 2, runningSecondCounter := 255,
                  initTempSnapshot := 25\<rparr>"

text \<open>The ramp temperature is being edited, 5 steps are pending and the button confirms.\<close>

definition editing :: hotplate where
  "editing = booted\<lparr>menuIndex := 3, selectIndexMax := 8, selectFlag := True,
                     selectCounter := 5, encSW := True\<rparr>"

section \<open>Committed edits of 8-bit parameters\<close>

lemma uint_ucast_16_8: "uint (ucast (w :: 16 word) :: 8 word) = uint w mod 256"
  by (simp add: unsigned_ucast_eq take_bit_eq_mod)

lemma uint_sint_16: "uint (w :: 16 word) = sint w mod 65536"
  by (simp add: uint_sint take_bit_eq_mod)

lemma mod_mod_256: "(x :: int) mod 65536 mod 256 = x mod 256"
  by (rule mod_mod_cancel) simp

lemma wrkInt_mod_256:
  "uint (ucast ((c :: 16 word) + intOfUint8 (b :: 8 word)) :: 8 word) = (uint b + sint c) mod 256"
proof -
  have b: "uint (intOfUint8 b) = uint b"
    by (simp add: intOfUint8_def uint_up_ucast is_up)
  have "uint (c + intOfUint8 b) = (uint c + uint b) mod 65536"
    by (simp add: uint_word_ariths b)
  then have "uint (ucast (c + intOfUint8 b) :: 8 word) = (uint c + uint b) mod 256"
    by (simp add: uint_ucast_16_8 mod_mod_256)
  also have "\<dots> = (sint c mod 65536 + uint b) mod 256"
    by (simp add: uint_sint_16)
  also have "\<dots> = (uint b + sint c) mod 256"
    by (metis add.commute mod_add_left_eq mod_mod_256)
  finally show ?thesis .
qed

text \<open>
  Claim C10.  When the push button confirms an edit (\<open>encSW\<close>), \<open>calcParameters\<close> stores
  into the selected field of the reflow profile (menu 3, fields 1 to 7), respectively into
  the constant temperature setpoint (menu 98), the old value plus \<open>selectCounter\<close> reduced
  modulo 256: the working value \<open>wrkInt\<close> is 8 bits wide, so an edit beyond 255 or below 0
  wraps around.  The other fields of the profile keep their values.
\<close>

theorem calcParameters_commit_wraps:
  assumes "encSW s"
  shows "(menuIndex s = 3 \<and> 1 \<le> sint (menuCounter s) \<and> sint (menuCounter s) \<le> 7
            \<and> length (parametersReflow s) = 7 \<longrightarrow>
          (\<exists>s'. calcParameters s = Some s' \<and> length (parametersReflow s') = 7 \<and>
             (\<forall>j<7. uint (parametersReflow s' ! j) =
                (if int j = sint (menuCounter s) - 1
                 then (uint (parametersReflow s ! j) + sint (selectCounter s)) mod 256
                 else uint (parametersReflow s ! j)))))
       \<and> (menuIndex s = 98 \<longrightarrow>
          (\<exists>s'. calcParameters s = Some s' \<and>
             uint (constTempSP s') = (uint (constTempSP s) + sint (selectCounter s)) mod 256))"
proof (intro conjI impI)
  assume a: "menuIndex s = 3 \<and> 1 \<le> sint (menuCounter s) \<and> sint (menuCounter s) \<le> 7
            \<and> length (parametersReflow s) = 7"
  define i where "i = nat (sint (menuCounter s) - 1)"
  have i: "int i = sint (menuCounter s) - 1" "i < 7" using a by (auto simp: i_def)
  define v :: uint8 where "v = ucast (selectCounter s + intOfUint8 (parametersReflow s ! i))"
  have c: "calcParameters s =
      Some (s\<lparr>wrkInt := 0, parametersReflow := (parametersReflow s)[i := v],
             selectCounter := 0, wrkDouble := 0\<rparr>)"
  proof -
    have "0 \<le> sint (menuCounter s) - 1" "sint (menuCounter s) - 1 < 7" using a by auto
    with a assms show ?thesis by (simp add: calcParameters_def Let_def i_def v_def)
  qed
  have v: "uint v = (uint (parametersReflow s ! i) + sint (selectCounter s)) mod 256"
    by (simp add: v_def wrkInt_mod_256)
  show "\<exists>s'. calcParameters s = Some s' \<and> length (parametersReflow s') = 7 \<and>
             (\<forall>j<7. uint (parametersReflow s' ! j) =
                (if int j = sint (menuCounter s) - 1
                 then (uint (parametersReflow s ! j) + sint (selectCounter s)) mod 256
                 else uint (parametersReflow s ! j)))"
  proof -
    have eq: "\<And>j. (int j = sint (menuCounter s) - 1) = (j = i)" using i(1) by auto
    show ?thesis using a i(2) v by (auto simp: c nth_list_update eq)
  qed
next
  assume a: "menuIndex s = 98"
  show "\<exists>s'. calcParameters s = Some s' \<and>
             uint (constTempSP s') = (uint (constTempSP s) + sint (selectCounter s)) mod 256"
    using a assms by (simp add: calcParameters_def Let_def wrkInt_mod_256)
qed

theorem calcParameters_commit_wraps_witness:
  "(\<exists>s'. calcParameters editT1 = Some s' \<and> uint (parametersReflow s' ! 0) = 59
         \<and> uint (parametersReflow s' ! 1) = 100)
   \<and> (\<exists>s'. calcParameters editSP = Some s' \<and> uint (constTempSP s') = 251)"
proof
  have f: "encSW editT1" "menuIndex editT1 = 3" "sint (menuCounter editT1) = 1"
    "parametersReflow editT1 = [115, 100, 145, 155, 185, 180, 35]"
    "sint (selectCounter editT1) = 200"
    by (simp_all add: editT1_def initial_def)
  from calcParameters_commit_wraps [OF f(1)] f obtain s' where
    c: "calcParameters editT1 = Some s'" and
    j: "\<forall>j<7. uint (parametersReflow s' ! j) =
          (if int j = 0 then (uint ([115, 100, 145, 155, 185, 180, 35 :: uint8] ! j) + 200) mod 256
           else uint ([115, 100, 145, 155, 185, 180, 35 :: uint8] ! j))"
    by auto
  from j have "uint (parametersReflow s' ! 0) = 59" by (simp del: One_nat_def)
  moreover from j have "uint (parametersReflow s' ! 1) = 100" by (simp del: One_nat_def)
  ultimately show "\<exists>s'. calcParameters editT1 = Some s' \<and> uint (parametersReflow s' ! 0) = 59
         \<and> uint (parametersReflow s' ! 1) = 100"
    using c by blast
next
  have f: "encSW editSP" "menuIndex editSP = 98" "uint (constTempSP editSP) = 35"
    "sint (selectCounter editSP) = - 40"
    by (simp_all add: editSP_def initial_def)
  from calcParameters_commit_wraps [OF f(1)] f
  show "\<exists>s'. calcParameters editSP = Some s' \<and> uint (constTempSP s') = 251"
    by simp
qed

section \<open>Rounding to single precision\<close>









lemma single_scaled:
  assumes "2 ^ 23 \<le> \<bar>x\<bar> * 2 ^ j" "\<bar>x\<bar> * 2 ^ j < 2 ^ 24" "j \<le> 149"
  shows "single x = of_int (roundEven (x * 2 ^ j)) / 2 ^ j"
proof -
  have x: "x \<noteq> 0" using assms(1) by auto
  have p: "(2::real) powr (23 - real j) = 2 ^ 23 / 2 ^ j"
    by (simp add: powr_diff powr_realpow)
  have p': "(2::real) powr (24 - real j) = 2 ^ 24 / 2 ^ j"
    by (simp add: powr_diff powr_realpow)
  have "2 powr (23 - real j) \<le> \<bar>x\<bar>" using assms(1) by (simp add: p field_simps)
  then have l: "23 - real j \<le> log 2 \<bar>x\<bar>" using x by (simp add: le_log_iff)
  have "\<bar>x\<bar> < 2 powr (24 - real j)" using assms(2) by (simp add: p' field_simps)
  then have u: "log 2 \<bar>x\<bar> < 24 - real j" using x by (simp add: log_less_iff)
  have "\<lfloor>log 2 \<bar>x\<bar>\<rfloor> = 23 - int j"
    using l u by (simp add: floor_eq_iff)
  then have "max \<lfloor>log 2 \<bar>x\<bar>\<rfloor> (- 126) - 23 = - int j" using assms(3) by simp
  then have "ulp x = 2 powr (- real j)" by (simp add: ulp_def)
  also have "\<dots> = 1 / 2 ^ j" by (simp add: powr_minus powr_realpow divide_inverse)
  finally show ?thesis using x by (simp add: single_def)
qed

lemma single_values:
  "single (33 / 10) = 13841203 / 4194304" "single (1 / 50) = 10737418 / 536870912"
  "single (69 / 20) = 14470349 / 4194304" "single 400 = 400"
  using single_scaled [of "33 / 10" 22] single_scaled [of "1 / 50" 29]
    single_scaled [of "69 / 20" 22] single_scaled [of 400 15]
  by (simp_all add: roundEven_def Let_def)

lemma single_products:
  "single (13841203 / 4194304 * 100) = 330" "single (10737418 / 536870912 * 100) = 2"
  "single (14470349 / 4194304 * 100) = 345" "single (400 * 100) = 40000"
  using single_scaled [of "13841203 / 4194304 * 100" 15]
    single_scaled [of "10737418 / 536870912 * 100" 23]
    single_scaled [of "14470349 / 4194304 * 100" 15] single_scaled [of 40000 8]
  by (simp_all add: roundEven_def Let_def)

lemma single_saved:
  "single (single (33 / 10) * 100) = 330" "single (single (1 / 50) * 100) = 2"
  "single (single (69 / 20) * 100) = 345" "single (single 400 * 100) = 40000"
  using single_products by (simp_all add: single_values)

section \<open>Persistence of the parameters\<close>

lemma readUInt8T_7:
  "readUInt8TArrayFromEEPROM ee a 7 = [ee a, ee (a + 1), ee (a + 2), ee (a + 3), ee (a + 4), ee (a + 5), ee (a + 6)]"
  by (simp add: eval_nat_numeral)

lemma readInt_6:
  "readIntArrayFromEEPROM ee a 6 =
     map (\<lambda>k. push_bit 8 (intOfUint8 (ee (a + k))) + intOfUint8 (ee (a + k + 1))) [0, 2, 4, 6, 8, 10]"
  by (simp add: eval_nat_numeral)

lemma low_byte: "(ucast ((n :: int16) AND 0xFF) :: uint8) = ucast n"
proof -
  have m: "(0xFF :: int16) = mask 8" by (simp add: mask_eq_exp_minus_1)
  show ?thesis
    unfolding m by (rule bit_word_eqI) (auto simp: bit_simps)
qed

lemma int16_bytes: 
  "push_bit 8 (intOfUint8 (ucast (drop_bit 8 (n :: int16)))) + intOfUint8 (ucast (n AND 0xFF)) = n"
proof -
  have "push_bit 8 (intOfUint8 (ucast (drop_bit 8 n))) + intOfUint8 (ucast n)
      = push_bit 8 (intOfUint8 (ucast (drop_bit 8 n))) OR intOfUint8 (ucast n)"
    by (rule disjunctive_add) (auto simp: intOfUint8_def bit_simps)
  also have "\<dots> = n"
    by (rule bit_word_eqI) (auto simp: intOfUint8_def bit_simps)
  finally show ?thesis by (simp add: low_byte)
qed





lemma sumSamples_5:
  "sumSamples f 5 = real (unat (f 0)) + real (unat (f 1)) + real (unat (f 2))
     + real (unat (f 3)) + real (unat (f 4))"
  by (simp add: eval_nat_numeral)

lemma avg465: "average (\<lambda>i. 465) = 465"
  by (simp add: average_def Numsamples_def sumSamples_5)

lemma readUInt8T_1_7:
  "readUInt8TArrayFromEEPROM ee (Suc 0) 7 = [ee (Suc 0), ee 2, ee 3, ee 4, ee 5, ee 6, ee 7]"
  by (simp add: eval_nat_numeral)

lemma readInt_8_6:
  "readIntArrayFromEEPROM ee 8 6 =
     [push_bit 8 (intOfUint8 (ee 8)) + intOfUint8 (ee 9),
      push_bit 8 (intOfUint8 (ee 10)) + intOfUint8 (ee 11),
      push_bit 8 (intOfUint8 (ee 12)) + intOfUint8 (ee 13),
      push_bit 8 (intOfUint8 (ee 14)) + intOfUint8 (ee 15),
      push_bit 8 (intOfUint8 (ee 16)) + intOfUint8 (ee 17),
      push_bit 8 (intOfUint8 (ee 18)) + intOfUint8 (ee 19)]"
  by (simp add: readInt_6)

lemma steinhart_465: "steinhart 465 = 25"
  by (simp add: steinhart_def SERIESRESISTOR_def THERMISTORNOMINAL_def
      TEMPERATURENOMINAL_def BCOEFFICIENT_def)

lemma setup_main_parameters:
  "parametersReflow (setup_main rd s) = readUInt8TArrayFromEEPROM (EEPROM s) 1 7"
  "parametersPID (setup_main rd s) = map (\<lambda>n. doubleOfInt n / 100) (readIntArrayFromEEPROM (EEPROM s) 8 6)"
  by (simp_all add: setup_main_def readThermistor_def Let_def)

lemma EEPROM_initial: "EEPROM (initial ee) = ee"
  by (simp add: initial_def Let_def)

text \<open>
  Claim C7, as amended.  On every boot \<open>setup()\<close> adopts the stored bytes without any
  check: each field of the reflow profile becomes the byte at addresses 1 to 7, and each
  tuning constant becomes the signed 16-bit value stored high byte first at addresses 8
  to 19, divided by 100.  The built-in values survive only if the store holds them.
\<close>

theorem setup_main_adopts_store:
  "parametersReflow (setup_main rd (initial ee)) = [ee 1, ee 2, ee 3, ee 4, ee 5, ee 6, ee 7]
   \<and> parametersPID (setup_main rd (initial ee)) =
       map (\<lambda>a. real_of_int (sint (push_bit 8 (ucast (ee a) :: int16) + ucast (ee (a + 1)))) / 100)
         [8, 10, 12, 14, 16, 18]"
  by (simp add: setup_main_parameters EEPROM_initial readUInt8T_1_7 readInt_8_6 doubleOfInt_def
      intOfUint8_def)

text \<open>
  Claim C7 as stated fails on an erased store (first boot): every field of the profile
  becomes 255 and every tuning constant \<open>-0.01\<close>, not the built-in values.
\<close>

theorem setup_main_erased_counterexample:
  "parametersReflow (setup_main reading25 (initial erased)) = [255, 255, 255, 255, 255, 255, 255]
   \<and> parametersPID (setup_main reading25 (initial erased))
       = [- 0.01, - 0.01, - 0.01, - 0.01, - 0.01, - 0.01]
   \<and> parametersReflow (setup_main reading25 (initial erased)) \<noteq> parametersReflow (initial erased)
   \<and> parametersPID (setup_main reading25 (initial erased)) \<noteq> parametersPID (initial erased)"
  by (simp add: setup_main_parameters EEPROM_initial readUInt8T_1_7 readInt_8_6 doubleOfInt_def
      intOfUint8_def erased_def initial_def)

lemma save_EEPROM:
  assumes "menuIndex s = 5" "parametersReflow s = [a0, a1, a2, a3, a4, a5, a6]"
    "parametersPID s = [v0, v1, v2, v3, v4, v5]"
  shows "readUInt8TArrayFromEEPROM (EEPROM (updateCursorPosition s)) (Suc 0) 7 = parametersReflow s"
    and "readIntArrayFromEEPROM (EEPROM (updateCursorPosition s)) 8 6
          = map (\<lambda>p. intOfDouble (single (single p * 100))) (parametersPID s)"
  using assms
  by (simp_all add: updateCursorPosition_def Let_def readUInt8T_1_7 readInt_8_6 int16_bytes)




lemma loaded_tuning_le: "doubleOfInt n / 100 \<le> 327.67"
proof -
  have "sint n < 2 ^ (LENGTH(16) - 1)" by (rule sint_lt)
  then have "sint n \<le> 32767" by simp
  then have "real_of_int (sint n) \<le> 32767" by linarith
  then show ?thesis by (simp add: doubleOfInt_def field_simps)
qed


section \<open>What the parts of a pass leave unchanged\<close>

lemma readThermistor_frame:
  "runningState (readThermistor rd s) = runningState s"
  "running (readThermistor rd s) = running s"
  "runningMode (readThermistor rd s) = runningMode s"
  "runningBuffer (readThermistor rd s) = runningBuffer s"
  "hotPlate1PID (readThermistor rd s) = hotPlate1PID s"
  "hotPlate2PID (readThermistor rd s) = hotPlate2PID s"
  "pid_Setpoint (readThermistor rd s) = pid_Setpoint s"
  "pid1_Output (readThermistor rd s) = pid1_Output s"
  "pid2_Output (readThermistor rd s) = pid2_Output s"
  "pwm1 (readThermistor rd s) = pwm1 s"
  "pwm2 (readThermistor rd s) = pwm2 s"
  "time_now (readThermistor rd s) = time_now s"
  "runningSecondCounter (readThermistor rd s) = runningSecondCounter s"
  "parametersReflow (readThermistor rd s) = parametersReflow s"
  "parametersPID (readThermistor rd s) = parametersPID s"
  "initTempSnapshot (readThermistor rd s) = initTempSnapshot s"
  "menuIndex (readThermistor rd s) = menuIndex s"
  "menuCounter (readThermistor rd s) = menuCounter s"
  "startConfirm (readThermistor rd s) = startConfirm s"
  "selectFlag (readThermistor rd s) = selectFlag s"
  by (simp_all add: readThermistor_def Let_def)

lemma pidLoops_frame:
  "runningState (pidLoop2 e (pidLoop1 e s)) = runningState s"
  "running (pidLoop2 e (pidLoop1 e s)) = running s"
  "runningMode (pidLoop2 e (pidLoop1 e s)) = runningMode s"
  "runningBuffer (pidLoop2 e (pidLoop1 e s)) = runningBuffer s"
  "pid_Setpoint (pidLoop2 e (pidLoop1 e s)) = pid_Setpoint s"
  "runningSecondCounter (pidLoop2 e (pidLoop1 e s)) = runningSecondCounter s"
  "parametersReflow (pidLoop2 e (pidLoop1 e s)) = parametersReflow s"
  "parametersPID (pidLoop2 e (pidLoop1 e s)) = parametersPID s"
  "initTempSnapshot (pidLoop2 e (pidLoop1 e s)) = initTempSnapshot s"
  "menuIndex (pidLoop2 e (pidLoop1 e s)) = menuIndex s"
  "menuCounter (pidLoop2 e (pidLoop1 e s)) = menuCounter s"
  "startConfirm (pidLoop2 e (pidLoop1 e s)) = startConfirm s"
  "selectFlag (pidLoop2 e (pidLoop1 e s)) = selectFlag s"
  "thermistor1Fail (pidLoop2 e (pidLoop1 e s)) = thermistor1Fail s"
  "thermistor2Fail (pidLoop2 e (pidLoop1 e s)) = thermistor2Fail s"
  "steinhart1 (pidLoop2 e (pidLoop1 e s)) = steinhart1 s"
  "steinhart2 (pidLoop2 e (pidLoop1 e s)) = steinhart2 s"
  "time_now (pidLoop2 e (pidLoop1 e s)) = time_now s"
  by (simp_all add: pidLoop1_def pidLoop2_def Let_def split: prod.splits)

lemma calcParameters_other_menu:
  "menuIndex s \<noteq> 3 \<Longrightarrow> menuIndex s \<noteq> 4 \<Longrightarrow> menuIndex s \<noteq> 98 \<Longrightarrow> calcParameters s = Some s"
  by (simp add: calcParameters_def)

lemma updateCursorPosition_frame:
  "runningState (updateCursorPosition s) = runningState s"
  "runningBuffer (updateCursorPosition s) = runningBuffer s"
  "hotPlate1PID (updateCursorPosition s) = hotPlate1PID s"
  "hotPlate2PID (updateCursorPosition s) = hotPlate2PID s"
  "thermistor1Fail (updateCursorPosition s) = thermistor1Fail s"
  "thermistor2Fail (updateCursorPosition s) = thermistor2Fail s"
  "parametersReflow (updateCursorPosition s) = parametersReflow s"
  "parametersPID (updateCursorPosition s) = parametersPID s"
  "initTempSnapshot (updateCursorPosition s) = initTempSnapshot s"
  "runningSecondCounter (updateCursorPosition s) = runningSecondCounter s"
  "time_now (updateCursorPosition s) = time_now s"
  by (simp_all add: updateCursorPosition_def Let_def)

lemma updateDisplay_frame:
  "runningState (updateDisplay s) = runningState s"
  "runningBuffer (updateDisplay s) = runningBuffer s"
  "runningMode (updateDisplay s) = runningMode s"
  "running (updateDisplay s) = running s"
  "hotPlate1PID (updateDisplay s) = hotPlate1PID s"
  "hotPlate2PID (updateDisplay s) = hotPlate2PID s"
  "thermistor1Fail (updateDisplay s) = thermistor1Fail s"
  "thermistor2Fail (updateDisplay s) = thermistor2Fail s"
  "parametersReflow (updateDisplay s) = parametersReflow s"
  "parametersPID (updateDisplay s) = parametersPID s"
  "initTempSnapshot (updateDisplay s) = initTempSnapshot s"
  "runningSecondCounter (updateDisplay s) = runningSecondCounter s"
  "menuIndex (updateDisplay s) = menuIndex s"
  "menuCounter (updateDisplay s) = menuCounter s"
  "startConfirm (updateDisplay s) = startConfirm s"
  "selectFlag (updateDisplay s) = selectFlag s"
  "time_now (updateDisplay s) = time_now s"
  by (simp_all add: updateDisplay_def)

lemma updateCursorPosition_runningMode:
  "menuIndex s \<noteq> 0 \<Longrightarrow> runningMode (updateCursorPosition s) = runningMode s"
  by (simp add: updateCursorPosition_def Let_def)

lemma intOfDouble_0: "intOfDoubleOr u (Fin 0) = 0"
  by (simp add: intOfDoubleOr_def intOfDouble_def towardsZero_def)

section \<open>Evaluating concrete runs\<close>

lemma stored_read:
  "readUInt8TArrayFromEEPROM stored (Suc 0) 7 = [115, 100, 145, 155, 185, 180, 35]"
  "readIntArrayFromEEPROM stored 8 6 = [330, 2, 345, 330, 2, 345]"
proof -
  have f: "menuIndex saved = 5" "parametersReflow saved = [115, 100, 145, 155, 185, 180, 35]"
    "parametersPID saved = [3.30, 0.02, 3.45, 3.30, 0.02, 3.45]"
    by (simp_all add: saved_def initial_def)
  show "readUInt8TArrayFromEEPROM stored (Suc 0) 7 = [115, 100, 145, 155, 185, 180, 35]"
    by (simp add: stored_def save_EEPROM [OF f] f)
  show "readIntArrayFromEEPROM stored 8 6 = [330, 2, 345, 330, 2, 345]"
    by (simp add: stored_def save_EEPROM [OF f] f single_saved intOfDouble_def towardsZero_def)
qed

lemma avg0: "average (\<lambda>i. 0) = 0"
  by (simp add: average_def Numsamples_def sumSamples_5)

lemma steinhart_0: "steinhart 0 = - 273.15"
  by (simp add: steinhart_def)

lemmas eval_defs = loop_def calcParameters_def updateCursorPosition_def updateDisplay_def
  readThermistor_def reflowRunning_def reflowSwitch_def constTempRunning_def pidLoop1_def pidLoop2_def
  Compute_def SetMode_def SetSampleTime_def clampOutput_def Let_def failFlag_def failCounter_def
  dsub_def infOrNaN_def intOfDoubleOr_def
  isrEncCLK_def isrEncDT_def encoderCount_def
  reading25_def openCircuit1_def stale3_def pass_def
  avg465 avg0 steinhart_465 steinhart_0 intOfDouble_def towardsZero_def doubleOfUint8_def doubleOfInt_def
  intOfUint8_def

lemma bind_weak_cong: "m = m' \<Longrightarrow> Option.bind m f = Option.bind m' f"
  by simp

lemma case_prod_weak_cong: "p = q \<Longrightarrow> case_prod f p = case_prod f q"
  by simp

lemmas eval_congs = let_weak_cong bind_weak_cong case_prod_weak_cong

lemma run_append: "run (xs @ ys) s = Option.bind (run xs s) (run ys)"
proof (induction xs s rule: run.induct)
  case (2 e evs s)
  then show ?case by (cases "loop e s") simp_all
qed simp_all

lemma booted_eq:
  "booted =
    \<lparr>steinhart1 = 25, steinhart2 = 25, T1Disp = 0, T2Disp = 0,
       thermistor1Buffer = 25, thermistor2Buffer = 25,
       thermistor1Fail = False, thermistor2Fail = False, tempCounter = 0,
       menuCounter = 1, selectCounter = 0, encSW = False, menuIndex = 0,
       selectIndexMax = 1, running = False, selectFlag = False,
       startConfirm = False, wrkInt = 0, wrkDouble = 0,
       parametersReflow = [115, 100, 145, 155, 185, 180, 35],
       parametersPID = [33 / 10, 1 / 50, 69 / 20, 33 / 10, 1 / 50, 69 / 20],
       parametersPIDint = [0, 0, 0, 0, 0, 0], pid_Setpoint = Fin 50,
       pid1_Input = 0, pid1_Output = Fin 0, pid2_Input = 0, pid2_Output = Fin 0,
       runningBuffer = False, runningState = 0, time_now = 0,
       runningSecondCounter = 0, initTempSnapshot = 25, constTempSP = 35,
       runningMode = False,
       hotPlate1PID =
         \<lparr>inAuto = False, Kp = 33 / 10, Ki = 1 / 50, Kd = 69 / 20,
            integral = Fin 0, prevError = Fin 0, lastTime = 0, SampleTime = 200,
            outMin = 0, outMax = 255\<rparr>,
       hotPlate2PID =
         \<lparr>inAuto = False, Kp = 33 / 10, Ki = 1 / 50, Kd = 69 / 20,
            integral = Fin 0, prevError = Fin 0, lastTime = 0, SampleTime = 200,
            outMin = 0, outMax = 255\<rparr>,
       EEPROM = stored, pwm1 = 0, pwm2 = 0\<rparr>"
  by (simp add: booted_def setup_main_def initial_def PID_new_def stored_read eval_defs
      cong: eval_congs)

lemma startReflow_eq:
  "run startReflow booted =
       Some
        \<lparr>steinhart1 = 25, steinhart2 = 25, T1Disp = 25, T2Disp = 25,
           thermistor1Buffer = 25, thermistor2Buffer = 25,
           thermistor1Fail = False, thermistor2Fail = False,
           tempCounter = 0, menuCounter = 1, selectCounter = 0,
           encSW = True, menuIndex = 99, selectIndexMax = 1, running = True,
           selectFlag = False, startConfirm = False, wrkInt = 0,
           wrkDouble = 0,
           parametersReflow = [115, 100, 145, 155, 185, 180, 35],
           parametersPID =
             [33 / 10, 1 / 50, 69 / 20, 33 / 10, 1 / 50, 69 / 20],
           parametersPIDint = [0, 0, 0, 0, 0, 0], pid_Setpoint = Fin (259 / 10),
           pid1_Input = 25, pid1_Output = Fin (92493 / 5000), pid2_Input = 25,
           pid2_Output = Fin (92493 / 5000), runningBuffer = True,
           runningState = 1, time_now = 7000, runningSecondCounter = 1,
           initTempSnapshot = 25, constTempSP = 35, runningMode = True,
           hotPlate1PID =
             \<lparr>inAuto = True, Kp = 33 / 10, Ki = 1 / 50, Kd = 69 / 20,
                integral = Fin (9 / 50), prevError = Fin (9 / 10), lastTime = 7000,
                SampleTime = 200, outMin = 0, outMax = 255\<rparr>,
           hotPlate2PID =
             \<lparr>inAuto = True, Kp = 33 / 10, Ki = 1 / 50, Kd = 69 / 20,
                integral = Fin (9 / 50), prevError = Fin (9 / 10), lastTime = 7000,
                SampleTime = 200, outMin = 0, outMax = 255\<rparr>,
           EEPROM = stored, pwm1 = 18, pwm2 = 18\<rparr>"
  by (simp add: startReflow_def booted_eq eval_defs cong: eval_congs)

lemma run_single: "run [Pass e] s = loop e s"
  by (cases "loop e s") simp_all

section \<open>The COOLING state\<close>

lemma reflowRunning_cooling:
  assumes "runningState s = 5"
  shows "pid_Setpoint (reflowRunning e s) = Fin 0"
    "\<not> inAuto (hotPlate1PID (reflowRunning e s))" "\<not> inAuto (hotPlate2PID (reflowRunning e s))"
    "pid1_Output (reflowRunning e s) = Fin 0" "pid2_Output (reflowRunning e s) = Fin 0"
    "pwm1 (reflowRunning e s) = 0" "pwm2 (reflowRunning e s) = 0"
    "runningState (reflowRunning e s) = 5" "running (reflowRunning e s) = running s"
  using assms
  by (simp_all add: reflowRunning_def reflowSwitch_def readThermistor_frame pidLoop1_def pidLoop2_def
      Compute_def SetMode_def Let_def intOfDouble_0)

text \<open>
  Claim C5 as stated fails on the pass in which the state COOLING is entered.  In the last
  second of REFLOW (state 4, 214 seconds counted) the timer fires: the second counter
  becomes 215, \<open>case 4\<close> of the switch sets the setpoint to 185 and then the state to 5, and
  the PID loops run in AUTOMATIC mode.  The pass ends in the state COOLING with the
  setpoint 185, both PID objects in AUTOMATIC mode and the duty cycle 255 on both pins.
\<close>

theorem cooling_entered_heating_counterexample:
  "runningState lastReflow = 4
   \<and> loop (pass False 1001 reading25) lastReflow \<noteq> None
   \<and> runningState (the (loop (pass False 1001 reading25) lastReflow)) = 5
   \<and> pid_Setpoint (the (loop (pass False 1001 reading25) lastReflow)) = Fin 185
   \<and> inAuto (hotPlate1PID (the (loop (pass False 1001 reading25) lastReflow)))
   \<and> inAuto (hotPlate2PID (the (loop (pass False 1001 reading25) lastReflow)))
   \<and> pwm1 (the (loop (pass False 1001 reading25) lastReflow)) = 255
   \<and> pwm2 (the (loop (pass False 1001 reading25) lastReflow)) = 255"
  by (simp add: lastReflow_def booted_eq eval_defs cong: eval_congs)

text \<open>
  Claim C5, as amended.  A pass of \<open>loop\<close> that begins while the reflow run is in the
  COOLING state (\<open>runningState = 5\<close> when the pass begins, on the running screen or in the
  stop dialog) ends, for every input of the pass and so for all temperatures, with the
  setpoint 0, both PID objects in MANUAL mode, both outputs 0 and 0 written to both PWM
  pins; the state remains COOLING.  This holds as well when the operator stops the run in
  that pass.
\<close>

theorem cooling_tick_outputs_off:
  assumes "running s" and "runningBuffer s" and "runningMode s" and "runningState s = 5"
    and "menuIndex s = 99 \<or> menuIndex s = 1"
  shows "\<exists>s'. loop e s = Some s' \<and> pid_Setpoint s' = Fin 0
           \<and> \<not> inAuto (hotPlate1PID s') \<and> \<not> inAuto (hotPlate2PID s')
           \<and> pid1_Output s' = Fin 0 \<and> pid2_Output s' = Fin 0 \<and> pwm1 s' = 0 \<and> pwm2 s' = 0
           \<and> runningState s' = 5"
proof -
  define s1 where "s1 = s\<lparr>encSW := button e\<rparr>"
  define u where "u = updateDisplay (updateCursorPosition s1)"
  have m: "menuIndex s1 = 99 \<or> menuIndex s1 = 1" using assms(5) by (simp add: s1_def)
  then have calc: "(if selectFlag s1 then calcParameters s1 else Some s1) = Some s1"
    by (auto simp: calcParameters_other_menu)
  have u: "runningBuffer u" "runningMode u" "runningState u = 5"
    using assms m
    by (auto simp: u_def updateDisplay_frame updateCursorPosition_frame
        updateCursorPosition_runningMode s1_def)
  show ?thesis
  proof (cases "running u")
    case True
    have "loop e s = Some ((reflowRunning e u)\<lparr>runningBuffer := running (reflowRunning e u)\<rparr>)"
      using True u calc
      by (simp add: loop_def Let_def flip: s1_def u_def)
    then show ?thesis using reflowRunning_cooling [OF u(3), of e] by simp
  next
    case False
    then show ?thesis
      using u calc
      by (simp add: loop_def Let_def SetMode_def readThermistor_frame flip: s1_def u_def)
  qed
qed

theorem cooling_tick_outputs_off_witness:
  "\<exists>s'. loop released cooling = Some s' \<and> pid_Setpoint s' = Fin 0
           \<and> \<not> inAuto (hotPlate1PID s') \<and> \<not> inAuto (hotPlate2PID s')
           \<and> pid1_Output s' = Fin 0 \<and> pid2_Output s' = Fin 0 \<and> pwm1 s' = 0 \<and> pwm2 s' = 0
           \<and> runningState s' = 5"
proof -
  have "running cooling" "runningBuffer cooling" "runningMode cooling" "runningState cooling = 5"
    "menuIndex cooling = 99 \<or> menuIndex cooling = 1"
    by (simp_all add: cooling_def)
  then show ?thesis by (rule cooling_tick_outputs_off)
qed

section \<open>The setpoint of the reflow profile\<close>

lemma sint_succ: "sint (c :: int16) < 32767 \<Longrightarrow> sint (c + 1) = sint c + 1"
proof -
  assume a: "sint c < 32767"
  have l: "- (2 ^ (LENGTH(16) - 1)) \<le> sint c" by (rule sint_ge)
  have "c + 1 = word_of_int (sint c + 1)" by simp
  then have "sint (c + 1) = signed_take_bit 15 (sint c + 1)"
    by (simp only: signed_of_int) simp
  also have "\<dots> = sint c + 1"
    by (rule signed_take_bit_int_eq_self) (use a l in simp_all)
  finally show ?thesis .
qed

lemma reflowSwitch_frame:
  "running (reflowSwitch s) = running s" "runningMode (reflowSwitch s) = runningMode s"
  "menuIndex (reflowSwitch s) = menuIndex s" "menuCounter (reflowSwitch s) = menuCounter s"
  "startConfirm (reflowSwitch s) = startConfirm s" "steinhart1 (reflowSwitch s) = steinhart1 s"
  "steinhart2 (reflowSwitch s) = steinhart2 s"
  "runningSecondCounter (reflowSwitch s) = runningSecondCounter s"
  "time_now (reflowSwitch s) = time_now s"
  "parametersReflow (reflowSwitch s) = parametersReflow s"
  "initTempSnapshot (reflowSwitch s) = initTempSnapshot s"
  "thermistor1Fail (reflowSwitch s) = thermistor1Fail s"
  "thermistor2Fail (reflowSwitch s) = thermistor2Fail s"
  by (simp_all add: reflowSwitch_def Let_def)

lemma reflowSwitch_step:
  assumes p: "parametersReflow s = profile4902P" and i: "initTempSnapshot s = 25"
    and m: "runningState s = 1 \<and> 0 \<le> sint (runningSecondCounter s) \<and> sint (runningSecondCounter s) \<le> 100
         \<or> runningState s = 2 \<and> 100 \<le> sint (runningSecondCounter s) \<and> sint (runningSecondCounter s) \<le> 155
         \<or> runningState s = 3 \<and> 155 \<le> sint (runningSecondCounter s) \<and> sint (runningSecondCounter s) \<le> 180
         \<or> runningState s = 4 \<and> 180 \<le> sint (runningSecondCounter s) \<and> sint (runningSecondCounter s) \<le> 215
         \<or> runningState s = 5 \<and> sint (runningSecondCounter s) = 215"
  shows "reflowInv (reflowSwitch s) \<and> setpointOk (reflowSwitch s)
           \<and> (runningState s = 5 \<longrightarrow>
                 pid_Setpoint (reflowSwitch s) = Fin 0 \<and> runningState (reflowSwitch s) = 5)"
  using m
proof (elim disjE conjE)
  assume "runningState s = 1" "0 \<le> sint (runningSecondCounter s)" "sint (runningSecondCounter s) \<le> 100"
  then show ?thesis using p i
    by (auto simp: reflowSwitch_def reflowInv_def setpointOk_def profile4902P_def Let_def
        doubleOfUint8_def doubleOfInt_def dsub_def simp del: of_int_sint)
next
  assume "runningState s = 2" "100 \<le> sint (runningSecondCounter s)" "sint (runningSecondCounter s) \<le> 155"
  then show ?thesis using p i
    by (auto simp: reflowSwitch_def reflowInv_def setpointOk_def profile4902P_def Let_def
        doubleOfUint8_def doubleOfInt_def dsub_def simp del: of_int_sint)
next
  assume "runningState s = 3" "155 \<le> sint (runningSecondCounter s)" "sint (runningSecondCounter s) \<le> 180"
  then show ?thesis using p i
    by (auto simp: reflowSwitch_def reflowInv_def setpointOk_def profile4902P_def Let_def
        doubleOfUint8_def doubleOfInt_def dsub_def simp del: of_int_sint)
next
  assume "runningState s = 4" "180 \<le> sint (runningSecondCounter s)" "sint (runningSecondCounter s) \<le> 215"
  then show ?thesis using p i
    by (auto simp: reflowSwitch_def reflowInv_def setpointOk_def profile4902P_def Let_def
        doubleOfUint8_def doubleOfInt_def dsub_def simp del: of_int_sint)
next
  assume "runningState s = 5" "sint (runningSecondCounter s) = 215"
  then show ?thesis using p i
    by (auto simp: reflowSwitch_def reflowInv_def setpointOk_def profile4902P_def Let_def
        doubleOfUint8_def doubleOfInt_def SetMode_def dsub_def simp del: of_int_sint)
qed

text \<open>The part of \<open>reflowRunning\<close> before the switch: the acquisition, the change to
  AUTOMATIC mode and the timer.\<close>

lemma reflowRunning_unfold:
  "reflowRunning e s =
     pidLoop2 e (pidLoop1 e (reflowSwitch
       (let a = (readThermistor (readB e) s)
                  \<lparr>hotPlate1PID := SetMode True (hotPlate1PID (readThermistor (readB e) s)),
                   hotPlate2PID := SetMode True (hotPlate2PID (readThermistor (readB e) s))\<rparr>
        in if runningState s < 5 \<and> 1000 < millis e - time_now s
           then a\<lparr>time_now := millis e, runningSecondCounter := runningSecondCounter s + 1,
                   T1Disp := steinhart1 a, T2Disp := steinhart2 a\<rparr>
           else a)))"
  by (simp add: reflowRunning_def Let_def readThermistor_frame)

lemma reflowRunning_step:
  assumes "reflowInv s"
  shows "reflowInv (reflowRunning e s)" "setpointOk (reflowRunning e s)"
    "runningState s = 5 \<longrightarrow>
       pid_Setpoint (reflowRunning e s) = Fin 0 \<and> runningState (reflowRunning e s) = 5"
    "running (reflowRunning e s) = running s" "runningMode (reflowRunning e s) = runningMode s"
    "menuIndex (reflowRunning e s) = menuIndex s" "menuCounter (reflowRunning e s) = menuCounter s"
    "startConfirm (reflowRunning e s) = startConfirm s"
    "if runningState s < 5 \<and> 1000 < millis e - time_now s
     then runningSecondCounter (reflowRunning e s) = runningSecondCounter s + 1
          \<and> time_now (reflowRunning e s) = millis e
     else runningSecondCounter (reflowRunning e s) = runningSecondCounter s
          \<and> time_now (reflowRunning e s) = time_now s"
proof -
  define a where "a = (readThermistor (readB e) s)
                  \<lparr>hotPlate1PID := SetMode True (hotPlate1PID (readThermistor (readB e) s)),
                   hotPlate2PID := SetMode True (hotPlate2PID (readThermistor (readB e) s))\<rparr>"
  define b where "b = (if runningState s < 5 \<and> 1000 < millis e - time_now s
           then a\<lparr>time_now := millis e, runningSecondCounter := runningSecondCounter s + 1,
                   T1Disp := steinhart1 a, T2Disp := steinhart2 a\<rparr>
           else a)"
  have rr: "reflowRunning e s = pidLoop2 e (pidLoop1 e (reflowSwitch b))"
    by (simp add: reflowRunning_unfold Let_def a_def b_def)
  have a: "parametersReflow a = profile4902P" "initTempSnapshot a = 25"
    "runningState a = runningState s" "runningSecondCounter a = runningSecondCounter s"
    "running a = running s" "runningMode a = runningMode s" "menuIndex a = menuIndex s"
    "menuCounter a = menuCounter s" "startConfirm a = startConfirm s" "time_now a = time_now s"
    using assms by (simp_all add: a_def readThermistor_frame reflowInv_def)
  have b: "parametersReflow b = profile4902P" "initTempSnapshot b = 25"
    "runningState b = runningState s"
    "running b = running s" "runningMode b = runningMode s" "menuIndex b = menuIndex s"
    "menuCounter b = menuCounter s" "startConfirm b = startConfirm s"
    using a by (simp_all add: b_def)
  have c: "if runningState s < 5 \<and> 1000 < millis e - time_now s
           then runningSecondCounter b = runningSecondCounter s + 1 \<and> time_now b = millis e
           else runningSecondCounter b = runningSecondCounter s \<and> time_now b = time_now s"
    using a by (simp add: b_def)
  have lt: "runningState s < 5 \<Longrightarrow> sint (runningSecondCounter s) < 215"
    using assms by (auto simp: reflowInv_def Let_def)
  have m: "runningState b = 1 \<and> 0 \<le> sint (runningSecondCounter b) \<and> sint (runningSecondCounter b) \<le> 100
         \<or> runningState b = 2 \<and> 100 \<le> sint (runningSecondCounter b) \<and> sint (runningSecondCounter b) \<le> 155
         \<or> runningState b = 3 \<and> 155 \<le> sint (runningSecondCounter b) \<and> sint (runningSecondCounter b) \<le> 180
         \<or> runningState b = 4 \<and> 180 \<le> sint (runningSecondCounter b) \<and> sint (runningSecondCounter b) \<le> 215
         \<or> runningState b = 5 \<and> sint (runningSecondCounter b) = 215"
  proof (cases "runningState s < 5 \<and> 1000 < millis e - time_now s")
    case False
    then have "runningSecondCounter b = runningSecondCounter s" using c by simp
    then show ?thesis using assms b(3) by (auto simp: reflowInv_def Let_def)
  next
    case True
    then have h: "runningSecondCounter b = runningSecondCounter s + 1" using c by simp
    then have "sint (runningSecondCounter b) = sint (runningSecondCounter s) + 1"
      using lt True by (simp add: sint_succ)
    then show ?thesis using assms b(3) True by (auto simp: reflowInv_def Let_def)
  qed
  note s = reflowSwitch_step [OF b(1) b(2) m]
  show "reflowInv (reflowRunning e s)"
    using s by (simp add: rr reflowInv_def pidLoops_frame)
  show "setpointOk (reflowRunning e s)"
    using s by (simp add: rr setpointOk_def pidLoops_frame)
  show "runningState s = 5 \<longrightarrow>
       pid_Setpoint (reflowRunning e s) = Fin 0 \<and> runningState (reflowRunning e s) = 5"
    using s b(3) by (simp add: rr pidLoops_frame)
  show "running (reflowRunning e s) = running s" "runningMode (reflowRunning e s) = runningMode s"
    "menuIndex (reflowRunning e s) = menuIndex s" "menuCounter (reflowRunning e s) = menuCounter s"
    "startConfirm (reflowRunning e s) = startConfirm s"
    using b by (simp_all add: rr pidLoops_frame reflowSwitch_frame)
  show "if runningState s < 5 \<and> 1000 < millis e - time_now s
     then runningSecondCounter (reflowRunning e s) = runningSecondCounter s + 1
          \<and> time_now (reflowRunning e s) = millis e
     else runningSecondCounter (reflowRunning e s) = runningSecondCounter s
          \<and> time_now (reflowRunning e s) = time_now s"
    using c by (simp add: rr pidLoops_frame reflowSwitch_frame)
qed

lemma updateCursorPosition_run:
  assumes "running s" "runningMode s" "menuCounter s = 1"
    "menuIndex s = 99 \<or> menuIndex s = 1 \<and> \<not> startConfirm s"
  shows "running (updateCursorPosition s)" "runningMode (updateCursorPosition s)"
    "menuCounter (updateCursorPosition s) = 1"
    "menuIndex (updateCursorPosition s) = 99
       \<or> menuIndex (updateCursorPosition s) = 1 \<and> \<not> startConfirm (updateCursorPosition s)"
  using assms by (auto simp: updateCursorPosition_def Let_def)

lemma loop_step:
  assumes "runInv s"
  shows "\<exists>s'. loop e s = Some s' \<and> runInv s' \<and> setpointOk s'
           \<and> (runningState s = 5 \<longrightarrow> pid_Setpoint s' = Fin 0 \<and> runningState s' = 5)
           \<and> (if runningState s < 5 \<and> 1000 < millis e - time_now s
               then runningSecondCounter s' = runningSecondCounter s + 1 \<and> time_now s' = millis e
               else runningSecondCounter s' = runningSecondCounter s \<and> time_now s' = time_now s)"
proof -
  define s1 where "s1 = s\<lparr>encSW := button e\<rparr>"
  define u where "u = updateDisplay (updateCursorPosition s1)"
  have i1: "running s1" "runningMode s1" "menuCounter s1 = 1"
    "menuIndex s1 = 99 \<or> menuIndex s1 = 1 \<and> \<not> startConfirm s1"
    using assms by (simp_all add: runInv_def s1_def)
  then have calc: "(if selectFlag s1 then calcParameters s1 else Some s1) = Some s1"
    by (auto simp: calcParameters_other_menu)
  have u: "running u" "runningMode u" "menuCounter u = 1"
    "menuIndex u = 99 \<or> menuIndex u = 1 \<and> \<not> startConfirm u" "runningBuffer u"
    "runningState u = runningState s" "time_now u = time_now s"
    "runningSecondCounter u = runningSecondCounter s"
    using updateCursorPosition_run [OF i1] assms
    by (simp_all add: u_def updateDisplay_frame updateCursorPosition_frame runInv_def s1_def)
  have "reflowInv u"
    using assms
    by (simp add: runInv_def reflowInv_def u_def updateDisplay_frame updateCursorPosition_frame
        s1_def)
  note r = reflowRunning_step [OF this, of e]
  define s' where "s' = reflowRunning e u"
  have l: "loop e s = Some (s'\<lparr>runningBuffer := running s'\<rparr>)"
    using u calc by (simp add: loop_def Let_def s'_def flip: s1_def u_def)
  have "runInv (s'\<lparr>runningBuffer := running s'\<rparr>)"
    using r u by (simp add: runInv_def reflowInv_def s'_def)
  moreover have "setpointOk (s'\<lparr>runningBuffer := running s'\<rparr>)"
    using r(2) by (simp add: setpointOk_def s'_def)
  ultimately show ?thesis using l r(3,9) u(6,7,8) by (simp add: s'_def)
qed

lemma loop_start:
  assumes "menuIndex s = 1" "menuCounter s = 2" "startConfirm s" "runningMode s"
    "\<not> running s" "\<not> runningBuffer s" "parametersReflow s = profile4902P" "button e"
    "(steinhart (average (adc1 (readA e))) + steinhart (average (adc2 (readA e)))) / 2 = 25"
  shows "\<exists>s'. loop e s = Some s' \<and> runInv s' \<and> setpointOk s'
           \<and> (if 1000 < millis e - time_now s
               then runningSecondCounter s' = 1 \<and> time_now s' = millis e
               else runningSecondCounter s' = 0 \<and> time_now s' = time_now s)"
proof -
  define s1 where "s1 = s\<lparr>encSW := button e\<rparr>"
  define u where "u = updateDisplay (updateCursorPosition s1)"
  define r where "r = readThermistor (readA e) (u\<lparr>runningSecondCounter := 0\<rparr>)"
  define v where "v = r\<lparr>initTempSnapshot := (steinhart1 r + steinhart2 r) / 2, runningState := 1\<rparr>"
  have calc: "(if selectFlag s1 then calcParameters s1 else Some s1) = Some s1"
    using assms(1) by (auto simp: calcParameters_other_menu s1_def)
  have u: "running u" "runningMode u" "menuCounter u = 1" "menuIndex u = 99"
    "\<not> runningBuffer u" "parametersReflow u = profile4902P" "time_now u = time_now s"
    using assms
    by (simp_all add: u_def updateDisplay_frame updateCursorPosition_frame s1_def
        updateCursorPosition_def)
  have v: "running v" "runningMode v" "menuCounter v = 1" "menuIndex v = 99"
    "\<not> runningBuffer v" "parametersReflow v = profile4902P" "runningState v = 1"
    "runningSecondCounter v = 0" "time_now v = time_now s" "initTempSnapshot v = 25"
    using u assms(9)
    by (simp_all add: v_def r_def readThermistor_frame) (simp add: readThermistor_def Let_def)
  have "reflowInv v" using v by (simp add: reflowInv_def)
  note rs = reflowRunning_step [OF this, of e]
  define s' where "s' = reflowRunning e v"
  have l: "loop e s = Some (s'\<lparr>runningBuffer := running s'\<rparr>)"
    using u(1,2,5) calc
    by (simp add: loop_def Let_def readThermistor_frame s'_def v_def r_def flip: s1_def u_def)
  have "runInv (s'\<lparr>runningBuffer := running s'\<rparr>)"
    using rs v by (simp add: runInv_def reflowInv_def s'_def)
  moreover have "setpointOk (s'\<lparr>runningBuffer := running s'\<rparr>)"
    using rs(2) by (simp add: setpointOk_def s'_def)
  ultimately show ?thesis using l rs(9) v(7,8,9) by (simp add: s'_def)
qed

lemma elapsed_length: "length (elapsed t0 c es) = length es"
  by (induction es arbitrary: t0 c) simp_all

lemma elapsed_ge: "n < length es \<Longrightarrow> c \<le> elapsed t0 c es ! n"
proof (induction es arbitrary: t0 c n)
  case Nil
  then show ?case by simp
next
  case (Cons e es)
  show ?case
  proof (cases n)
    case 0
    then show ?thesis by simp
  next
    case (Suc k)
    then have k: "k < length es" using Cons.prems by simp
    from Cons.IH [OF k, of "Suc c" "millis e"] Cons.IH [OF k, of c t0]
    show ?thesis using Suc by (simp add: Suc_leD)
  qed
qed

lemma reflowInv_counter:
  assumes "reflowInv s"
  shows "sint (runningSecondCounter s) \<le> 215"
    "runningState s = 5 \<longrightarrow> sint (runningSecondCounter s) = 215"
    "runningState s < 5 \<or> runningState s = 5"
    "runningState s < 5 \<longrightarrow> sint (runningSecondCounter s) < 215"
  using assms by (auto simp: reflowInv_def Let_def)

lemma passes_elapsed:
  assumes "runInv s"
    and "runningState s < 5 \<longrightarrow> time_now s = t0 \<and> sint (runningSecondCounter s) = int c"
    and "runningState s = 5 \<longrightarrow> 215 \<le> c"
  shows "\<exists>tr. passes es s = Some tr \<and> length tr = length es
           \<and> (\<forall>n<length tr.
                 sint (runningSecondCounter (tr ! n)) = int (min (elapsed t0 c es ! n) 215)
                 \<and> setpointOk (tr ! n)
                 \<and> (216 \<le> elapsed t0 c es ! n \<longrightarrow>
                       pid_Setpoint (tr ! n) = Fin 0 \<and> runningState (tr ! n) = 5))"
  using assms
proof (induction es arbitrary: s t0 c)
  case Nil
  then show ?case by simp
next
  case (Cons e es)
  from loop_step [OF Cons.prems(1), of e] obtain s' where
    s': "loop e s = Some s'" "runInv s'" "setpointOk s'"
      "runningState s = 5 \<longrightarrow> pid_Setpoint s' = Fin 0 \<and> runningState s' = 5"
      "if runningState s < 5 \<and> 1000 < millis e - time_now s
       then runningSecondCounter s' = runningSecondCounter s + 1 \<and> time_now s' = millis e
       else runningSecondCounter s' = runningSecondCounter s \<and> time_now s' = time_now s"
    by blast
  define t1 where "t1 = (if 1000 < millis e - t0 then millis e else t0)"
  define c1 where "c1 = (if 1000 < millis e - t0 then Suc c else c)"
  have el: "elapsed t0 c (e # es) = c1 # elapsed t1 c1 es"
    by (simp add: t1_def c1_def)
  have inv: "reflowInv s" "reflowInv s'"
    using Cons.prems(1) s'(2) by (simp_all add: runInv_def)
  note i = reflowInv_counter [OF inv(1)]
  note i' = reflowInv_counter [OF inv(2)]
  have lt: "runningState s < 5 \<longrightarrow> time_now s' = t1 \<and> sint (runningSecondCounter s') = int c1"
  proof
    assume a: "runningState s < 5"
    then have b: "time_now s = t0" "sint (runningSecondCounter s) = int c"
      "sint (runningSecondCounter s) < 215"
      using Cons.prems(2) i(4) by simp_all
    show "time_now s' = t1 \<and> sint (runningSecondCounter s') = int c1"
    proof (cases "1000 < millis e - t0")
      case True
      then have "runningSecondCounter s' = runningSecondCounter s + 1" "time_now s' = millis e"
        using s'(5) a b(1) by simp_all
      then show ?thesis using True b sint_succ [of "runningSecondCounter s"]
        by (simp add: t1_def c1_def)
    next
      case False
      then have "runningSecondCounter s' = runningSecondCounter s" "time_now s' = time_now s"
        using s'(5) a b(1) by simp_all
      then show ?thesis using False b by (simp add: t1_def c1_def)
    qed
  qed
  have ge: "runningState s = 5 \<longrightarrow> 215 \<le> c1"
    using Cons.prems(3) by (auto simp: c1_def)
  have p2: "runningState s' < 5 \<longrightarrow> time_now s' = t1 \<and> sint (runningSecondCounter s') = int c1"
    using lt s'(4) i(3) by auto
  have p3: "runningState s' = 5 \<longrightarrow> 215 \<le> c1"
    using lt ge i(3) i'(2) by auto
  from Cons.IH [OF s'(2) p2 p3] obtain tr where
    tr: "passes es s' = Some tr" "length tr = length es"
      "\<forall>n<length tr.
          sint (runningSecondCounter (tr ! n)) = int (min (elapsed t1 c1 es ! n) 215)
          \<and> setpointOk (tr ! n)
          \<and> (216 \<le> elapsed t1 c1 es ! n \<longrightarrow>
                pid_Setpoint (tr ! n) = Fin 0 \<and> runningState (tr ! n) = 5)"
    by blast
  have h1: "sint (runningSecondCounter s') = int (min c1 215)"
    using lt ge i(3) i'(1,2) s'(4) by auto
  have h2: "216 \<le> c1 \<longrightarrow> pid_Setpoint s' = Fin 0 \<and> runningState s' = 5"
    using lt i(3) i'(1) s'(4) by auto
  have "\<forall>n<length (s' # tr).
          sint (runningSecondCounter ((s' # tr) ! n)) = int (min ((c1 # elapsed t1 c1 es) ! n) 215)
          \<and> setpointOk ((s' # tr) ! n)
          \<and> (216 \<le> (c1 # elapsed t1 c1 es) ! n \<longrightarrow>
                pid_Setpoint ((s' # tr) ! n) = Fin 0 \<and> runningState ((s' # tr) ! n) = 5)"
  proof (intro allI impI)
    fix n assume n: "n < length (s' # tr)"
    show "sint (runningSecondCounter ((s' # tr) ! n)) = int (min ((c1 # elapsed t1 c1 es) ! n) 215)
          \<and> setpointOk ((s' # tr) ! n)
          \<and> (216 \<le> (c1 # elapsed t1 c1 es) ! n \<longrightarrow>
                pid_Setpoint ((s' # tr) ! n) = Fin 0 \<and> runningState ((s' # tr) ! n) = 5)"
    proof (cases n)
      case 0
      then show ?thesis using h1 h2 s'(3) by simp
    next
      case (Suc k)
      then have "k < length tr" using n by simp
      then show ?thesis using tr(3) Suc by simp
    qed
  qed
  moreover have "passes (e # es) s = Some (s' # tr)" using s'(1) tr(1) by simp
  ultimately show ?case using tr(2) unfolding el by (intro exI [of _ "s' # tr"]) simp
qed

lemma booted_profile: "parametersReflow booted = [115, 100, 145, 155, 185, 180, 35]"
  by (simp add: booted_eq)

lemma elapsed_everySecond:
  "elapsed (of_nat a * 1001) c (map (\<lambda>k. pass b (of_nat k * 1001) rd) [Suc a..<Suc a + m])
     = map (\<lambda>j. Suc c + j) [0..<m]"
proof (induction m arbitrary: a c)
  case 0
  then show ?case by simp
next
  case (Suc m)
  have u: "[Suc a..<Suc a + Suc m] = Suc a # [Suc (Suc a)..<Suc (Suc a) + m]"
    by (simp add: upt_conv_Cons)
  have d: "(of_nat (Suc a) * 1001 :: ulong) - of_nat a * 1001 = 1001"
    by (simp add: algebra_simps)
  have w: "(1000 :: ulong) < 1001" by simp
  have "elapsed (of_nat a * 1001) c
          (map (\<lambda>k. pass b (of_nat k * 1001) rd) [Suc a..<Suc a + Suc m])
        = Suc c # elapsed (of_nat (Suc a) * 1001) (Suc c)
            (map (\<lambda>k. pass b (of_nat k * 1001) rd) [Suc (Suc a)..<Suc (Suc a) + m])"
    unfolding u using d w by (simp add: pass_def del: of_nat_Suc upt_Suc)
  also have "\<dots> = Suc c # map (\<lambda>j. Suc (Suc c) + j) [0..<m]"
    by (simp only: Suc.IH)
  also have "\<dots> = map (\<lambda>j. Suc c + j) [0..<Suc m]"
    by (simp add: map_upt_Suc del: upt_Suc)
  finally show ?case .
qed

text \<open>
  Claim C4.  A reflow run with the profile 115, 100, 145, 155, 185, 180, 35 is started by
  confirming YES in the start dialog while the two thermistors average 25 degrees, and goes
  on for any number of passes of \<open>loop\<close>, whatever their inputs and their times (the
  encoder is not turned).  With \<open>t\<close> the number of timer periods of one second that have
  elapsed after a pass, and \<open>sp\<close> the setpoint after that pass: the second counter of the
  program is \<open>t\<close> until it stops at 215; \<open>sp = 25\<close> at \<open>t = 0\<close>, \<open>sp = 115\<close> at \<open>t = 100\<close>,
  \<open>sp = 145\<close> at \<open>t = 155\<close>, \<open>sp = 185\<close> at \<open>t = 180\<close> and for \<open>180 \<le> t < 215\<close>, and
  \<open>sp = 0\<close> in state COOLING for \<open>t \<ge> 216\<close>.
\<close>

theorem reflow_setpoint_4902P:
  assumes "menuIndex s = 1" and "menuCounter s = 2" and "startConfirm s" and "runningMode s"
    and "\<not> running s" and "\<not> runningBuffer s"
    and "parametersReflow s = [115, 100, 145, 155, 185, 180, 35]"
    and "button e"
    and "(steinhart (average (adc1 (readA e))) + steinhart (average (adc2 (readA e)))) / 2 = 25"
  shows "\<exists>tr. passes (e # es) s = Some tr \<and> length tr = Suc (length es)
           \<and> (\<forall>n<length tr.
                 let t = elapsed (time_now s) 0 (e # es) ! n; sp = pid_Setpoint (tr ! n)
                 in sint (runningSecondCounter (tr ! n)) = int (min t 215)
                    \<and> (t = 0 \<longrightarrow> sp = Fin 25) \<and> (t = 100 \<longrightarrow> sp = Fin 115)
                    \<and> (t = 155 \<longrightarrow> sp = Fin 145) \<and> (t = 180 \<longrightarrow> sp = Fin 185)
                    \<and> (180 \<le> t \<and> t < 215 \<longrightarrow> sp = Fin 185)
                    \<and> (216 \<le> t \<longrightarrow> sp = Fin 0 \<and> runningState (tr ! n) = 5))"
proof -
  have p: "parametersReflow s = profile4902P" using assms(7) by (simp add: profile4902P_def)
  from loop_start [OF assms(1-6) p assms(8,9)] obtain s' where
    s': "loop e s = Some s'" "runInv s'" "setpointOk s'"
      "if 1000 < millis e - time_now s
       then runningSecondCounter s' = 1 \<and> time_now s' = millis e
       else runningSecondCounter s' = 0 \<and> time_now s' = time_now s" by blast
  define t1 where "t1 = (if 1000 < millis e - time_now s then millis e else time_now s)"
  define c1 where "c1 = (if 1000 < millis e - time_now s then Suc 0 else 0)"
  have el: "elapsed (time_now s) 0 (e # es) = c1 # elapsed t1 c1 es"
    by (simp add: t1_def c1_def)
  have c: "time_now s' = t1" "sint (runningSecondCounter s') = int c1"
    using s'(4) by (auto simp: t1_def c1_def)
  have c215: "c1 < 215" by (simp add: c1_def)
  have inv: "reflowInv s'" using s'(2) by (simp add: runInv_def)
  have p3: "runningState s' = 5 \<longrightarrow> 215 \<le> c1"
    using reflowInv_counter(2) [OF inv] c(2) c215 by auto
  from passes_elapsed [OF s'(2) _ p3, of t1 es] c obtain tr where
    tr: "passes es s' = Some tr" "length tr = length es"
      "\<forall>n<length tr.
          sint (runningSecondCounter (tr ! n)) = int (min (elapsed t1 c1 es ! n) 215)
          \<and> setpointOk (tr ! n)
          \<and> (216 \<le> elapsed t1 c1 es ! n \<longrightarrow>
                pid_Setpoint (tr ! n) = Fin 0 \<and> runningState (tr ! n) = 5)"
    by blast
  have all: "sint (runningSecondCounter ((s' # tr) ! n)) = int (min ((c1 # elapsed t1 c1 es) ! n) 215)
          \<and> setpointOk ((s' # tr) ! n)
          \<and> (216 \<le> (c1 # elapsed t1 c1 es) ! n \<longrightarrow>
                pid_Setpoint ((s' # tr) ! n) = Fin 0 \<and> runningState ((s' # tr) ! n) = 5)"
    if "n < length (s' # tr)" for n
  proof (cases n)
    case 0
    then show ?thesis using c(2) c215 s'(3) by simp
  next
    case (Suc k)
    then have "k < length tr" using that by simp
    then show ?thesis using tr(3) Suc by simp
  qed
  have fin: "let t = (c1 # elapsed t1 c1 es) ! n; sp = pid_Setpoint ((s' # tr) ! n)
                 in sint (runningSecondCounter ((s' # tr) ! n)) = int (min t 215)
                    \<and> (t = 0 \<longrightarrow> sp = Fin 25) \<and> (t = 100 \<longrightarrow> sp = Fin 115)
                    \<and> (t = 155 \<longrightarrow> sp = Fin 145) \<and> (t = 180 \<longrightarrow> sp = Fin 185)
                    \<and> (180 \<le> t \<and> t < 215 \<longrightarrow> sp = Fin 185)
                    \<and> (216 \<le> t \<longrightarrow> sp = Fin 0 \<and> runningState ((s' # tr) ! n) = 5)"
    if "n < length (s' # tr)" for n
    using all [OF that] unfolding setpointOk_def Let_def by auto
  have "passes (e # es) s = Some (s' # tr)" using s'(1) tr(1) by simp
  then show ?thesis using tr(2) fin unfolding el by (intro exI [of _ "s' # tr"]) simp
qed

theorem reflow_setpoint_4902P_witness:
  "\<exists>tr. passes (startPass # everySecond 217) confirmStart = Some tr \<and> length tr = 218
      \<and> sint (runningSecondCounter (tr ! 0)) = 0 \<and> pid_Setpoint (tr ! 0) = Fin 25
      \<and> sint (runningSecondCounter (tr ! 100)) = 100 \<and> pid_Setpoint (tr ! 100) = Fin 115
      \<and> sint (runningSecondCounter (tr ! 155)) = 155 \<and> pid_Setpoint (tr ! 155) = Fin 145
      \<and> sint (runningSecondCounter (tr ! 180)) = 180 \<and> pid_Setpoint (tr ! 180) = Fin 185
      \<and> sint (runningSecondCounter (tr ! 214)) = 214 \<and> pid_Setpoint (tr ! 214) = Fin 185
      \<and> sint (runningSecondCounter (tr ! 216)) = 215 \<and> pid_Setpoint (tr ! 216) = Fin 0
      \<and> runningState (tr ! 216) = 5"
proof -
  have h: "menuIndex confirmStart = 1" "menuCounter confirmStart = 2" "startConfirm confirmStart"
    "runningMode confirmStart" "\<not> running confirmStart" "\<not> runningBuffer confirmStart"
    "parametersReflow confirmStart = [115, 100, 145, 155, 185, 180, 35]"
    "button startPass"
    "(steinhart (average (adc1 (readA startPass))) + steinhart (average (adc2 (readA startPass)))) / 2 = 25"
    by (simp_all add: confirmStart_def booted_eq startPass_def pass_def reading25_def avg465
        steinhart_465)
  have t: "time_now confirmStart = 0" by (simp add: confirmStart_def booted_eq)
  have "elapsed 0 0 (startPass # everySecond 217)
          = 0 # elapsed (of_nat 0 * 1001) 0
                  (map (\<lambda>k. pass False (of_nat k * 1001) reading25) [Suc 0..<Suc 0 + 217])"
    by (simp add: startPass_def pass_def everySecond_def)
  also have "\<dots> = 0 # map (\<lambda>j. Suc 0 + j) [0..<217]"
    by (simp only: elapsed_everySecond)
  finally have el: "elapsed (time_now confirmStart) 0 (startPass # everySecond 217)
                      = 0 # map (\<lambda>j. Suc 0 + j) [0..<217]"
    by (simp add: t)
  have nth: "(0 # map (\<lambda>j. Suc 0 + j) [0..<217]) ! n = n" if "n < 218" for n
    using that by (cases n) simp_all
  have len: "length (everySecond 217) = 217" by (simp add: everySecond_def)
  from reflow_setpoint_4902P [OF h, of "everySecond 217"] obtain tr where
    tr: "passes (startPass # everySecond 217) confirmStart = Some tr"
      "length tr = Suc (length (everySecond 217))"
      "\<forall>n<length tr.
          let t = elapsed (time_now confirmStart) 0 (startPass # everySecond 217) ! n;
              sp = pid_Setpoint (tr ! n)
          in sint (runningSecondCounter (tr ! n)) = int (min t 215)
             \<and> (t = 0 \<longrightarrow> sp = Fin 25) \<and> (t = 100 \<longrightarrow> sp = Fin 115)
             \<and> (t = 155 \<longrightarrow> sp = Fin 145) \<and> (t = 180 \<longrightarrow> sp = Fin 185)
             \<and> (180 \<le> t \<and> t < 215 \<longrightarrow> sp = Fin 185)
             \<and> (216 \<le> t \<longrightarrow> sp = Fin 0 \<and> runningState (tr ! n) = 5)"
    by blast
  have l: "length tr = 218" using tr(2) by (simp add: len)
  have v: "sint (runningSecondCounter (tr ! n)) = int (min n 215)
             \<and> (n = 0 \<longrightarrow> pid_Setpoint (tr ! n) = Fin 25)
             \<and> (n = 100 \<longrightarrow> pid_Setpoint (tr ! n) = Fin 115)
             \<and> (n = 155 \<longrightarrow> pid_Setpoint (tr ! n) = Fin 145)
             \<and> (n = 180 \<longrightarrow> pid_Setpoint (tr ! n) = Fin 185)
             \<and> (180 \<le> n \<and> n < 215 \<longrightarrow> pid_Setpoint (tr ! n) = Fin 185)
             \<and> (216 \<le> n \<longrightarrow> pid_Setpoint (tr ! n) = Fin 0 \<and> runningState (tr ! n) = 5)"
    if "n < 218" for n
  proof -
    have "n < length tr" using that l by simp
    with tr(3) have "let t = elapsed (time_now confirmStart) 0 (startPass # everySecond 217) ! n;
              sp = pid_Setpoint (tr ! n)
          in sint (runningSecondCounter (tr ! n)) = int (min t 215)
             \<and> (t = 0 \<longrightarrow> sp = Fin 25) \<and> (t = 100 \<longrightarrow> sp = Fin 115)
             \<and> (t = 155 \<longrightarrow> sp = Fin 145) \<and> (t = 180 \<longrightarrow> sp = Fin 185)
             \<and> (180 \<le> t \<and> t < 215 \<longrightarrow> sp = Fin 185)
             \<and> (216 \<le> t \<longrightarrow> sp = Fin 0 \<and> runningState (tr ! n) = 5)"
      by blast
    then show ?thesis unfolding el nth [OF that] Let_def .
  qed
  show ?thesis
    using tr(1) l v [of 0] v [of 100] v [of 155] v [of 180] v [of 214] v [of 216]
    by (intro exI [of _ tr]) simp
qed

section \<open>Sensor faults\<close>

lemma sensorFault_eq:
  "run sensorFault booted =
    Some
     \<lparr>steinhart1 = - (5463 / 20), steinhart2 = 25, T1Disp = 25, T2Disp = 25,
        thermistor1Buffer = - (5463 / 20), thermistor2Buffer = 25,
        thermistor1Fail = True, thermistor2Fail = False, tempCounter = 0,
        menuCounter = 1, selectCounter = 0, encSW = False, menuIndex = 99,
        selectIndexMax = 1, running = True, selectFlag = False,
        startConfirm = False, wrkInt = 0, wrkDouble = 0,
        parametersReflow = [115, 100, 145, 155, 185, 180, 35],
        parametersPID =
          [33 / 10, 1 / 50, 69 / 20, 33 / 10, 1 / 50, 69 / 20],
        parametersPIDint = [0, 0, 0, 0, 0, 0], pid_Setpoint = Fin (259 / 10),
        pid1_Input = - (5463 / 20), pid1_Output = Fin 255, pid2_Input = 25,
        pid2_Output = Fin (7443 / 2500), runningBuffer = True, runningState = 1,
        time_now = 7000, runningSecondCounter = 1, initTempSnapshot = 25,
        constTempSP = 35, runningMode = True,
        hotPlate1PID =
          \<lparr>inAuto = True, Kp = 33 / 10, Ki = 1 / 50, Kd = 69 / 20,
             integral = Fin (5999 / 100), prevError = Fin (5981 / 20), lastTime = 7300,
             SampleTime = 200, outMin = 0, outMax = 255\<rparr>,
        hotPlate2PID =
          \<lparr>inAuto = True, Kp = 33 / 10, Ki = 1 / 50, Kd = 69 / 20,
             integral = Fin (9 / 25), prevError = Fin (9 / 10), lastTime = 7300,
             SampleTime = 200, outMin = 0, outMax = 255\<rparr>,
        EEPROM = stored, pwm1 = 255, pwm2 = 2\<rparr>"
  by (simp add: sensorFault_def run_append startReflow_eq eval_defs cong: eval_congs)

lemma sensorBack_eq:
  "run sensorBack booted =
    Some
     \<lparr>steinhart1 = 25, steinhart2 = 25, T1Disp = 25, T2Disp = 25,
        thermistor1Buffer = 25, thermistor2Buffer = 25,
        thermistor1Fail = False, thermistor2Fail = False, tempCounter = 0,
        menuCounter = 1, selectCounter = 0, encSW = False, menuIndex = 99,
        selectIndexMax = 1, running = True, selectFlag = False,
        startConfirm = False, wrkInt = 0, wrkDouble = 0,
        parametersReflow = [115, 100, 145, 155, 185, 180, 35],
        parametersPID =
          [33 / 10, 1 / 50, 69 / 20, 33 / 10, 1 / 50, 69 / 20],
        parametersPIDint = [0, 0, 0, 0, 0, 0], pid_Setpoint = Fin (259 / 10),
        pid1_Input = 25, pid1_Output = Fin 0, pid2_Input = 25,
        pid2_Output = Fin (1863 / 625), runningBuffer = True, runningState = 1,
        time_now = 7000, runningSecondCounter = 1, initTempSnapshot = 25,
        constTempSP = 35, runningMode = True,
        hotPlate1PID =
          \<lparr>inAuto = True, Kp = 33 / 10, Ki = 1 / 50, Kd = 69 / 20,
             integral = Fin (6017 / 100), prevError = Fin (9 / 10), lastTime = 7600,
             SampleTime = 200, outMin = 0, outMax = 255\<rparr>,
        hotPlate2PID =
          \<lparr>inAuto = True, Kp = 33 / 10, Ki = 1 / 50, Kd = 69 / 20,
             integral = Fin (27 / 50), prevError = Fin (9 / 10), lastTime = 7600,
             SampleTime = 200, outMin = 0, outMax = 255\<rparr>,
        EEPROM = stored, pwm1 = 0, pwm2 = 2\<rparr>"
  by (simp add: sensorBack_def run_append sensorFault_eq eval_defs cong: eval_congs)

text \<open>
  Claim C1 fails on the code.  A reflow run is started from the main menu; in the next
  pass thermistor 1 is open (0 counts, \<open>-273.15\<close> degrees).  \<open>readThermistor\<close> raises
  \<open>thermistor1Fail\<close> in that pass, and the same pass writes the duty cycle 255 to the
  PWM pin of plate 1 and 2 to that of plate 2: nothing in \<open>reflowRunning\<close>,
  \<open>constTempRunning\<close> or \<open>loop\<close> reads the failure flags; only \<open>updateDisplay\<close> does.
\<close>

theorem sensor_fault_keeps_heating:
  "run sensorFault booted \<noteq> None
   \<and> running (the (run sensorFault booted))
   \<and> thermistor1Fail (the (run sensorFault booted))
   \<and> pwm1 (the (run sensorFault booted)) = 255
   \<and> pwm2 (the (run sensorFault booted)) = 2"
  by (simp add: sensorFault_eq)

text \<open>
  Claim C3 as stated fails: the flag raised in the pass with the open thermistor is cleared
  by the next pass, in which the thermistor reads 25 degrees again, while the run goes on
  and the button is not pressed.
\<close>

theorem fault_flag_clears_counterexample:
  "thermistor1Fail (the (run sensorFault booted))
   \<and> running (the (run sensorFault booted))
   \<and> run sensorBack booted \<noteq> None
   \<and> running (the (run sensorBack booted))
   \<and> \<not> thermistor1Fail (the (run sensorBack booted))
   \<and> \<not> thermistor2Fail (the (run sensorBack booted))"
  by (simp add: sensorFault_eq sensorBack_eq)

lemma readThermistor_flags:
  "thermistor1Fail (readThermistor rd s) =
     failFlag (steinhart (average (adc1 rd)))
       (failCounter (steinhart (average (adc1 rd))) (junk1 rd))"
  "thermistor2Fail (readThermistor rd s) =
     failFlag (steinhart (average (adc2 rd)))
       (failCounter (steinhart (average (adc2 rd))) (junk2 rd))"
  by (simp_all add: readThermistor_def Let_def)

lemma reflowRunning_flags:
  "thermistor1Fail (reflowRunning e s) = thermistor1Fail (readThermistor (readB e) s)"
  "thermistor2Fail (reflowRunning e s) = thermistor2Fail (readThermistor (readB e) s)"
  "running (reflowRunning e s) = running s"
  by (simp_all add: reflowRunning_unfold Let_def pidLoops_frame reflowSwitch_frame
      readThermistor_frame)

lemma constTempRunning_flags:
  "thermistor1Fail (constTempRunning e s) = thermistor1Fail (readThermistor (readB e) s)"
  "thermistor2Fail (constTempRunning e s) = thermistor2Fail (readThermistor (readB e) s)"
  "running (constTempRunning e s) = running s"
  by (simp_all add: constTempRunning_def Let_def pidLoops_frame readThermistor_frame)

lemma calcParameters_total:
  "menuIndex s \<noteq> 3 \<Longrightarrow> menuIndex s \<noteq> 4 \<Longrightarrow> \<exists>s'. calcParameters s = Some s'"
  by (simp add: calcParameters_def Let_def)

lemma loop_None:
  "(if selectFlag (s\<lparr>encSW := button e\<rparr>) then calcParameters (s\<lparr>encSW := button e\<rparr>)
    else Some (s\<lparr>encSW := button e\<rparr>)) = None \<Longrightarrow> loop e s = None"
  unfolding loop_def Let_def by (simp only: Option.bind.simps)

lemma erasedRun_pass:
  "running (the (loop (pass False 9000 openCircuit1) erasedRun))
   \<and> pid_Setpoint (the (loop (pass False 9000 openCircuit1) erasedRun)) = NaN"
  by (simp add: erasedRun_def setup_main_def initial_def PID_new_def erased_def readUInt8T_1_7
      readInt_8_6 eval_defs cong: eval_congs)

text \<open>
  Claim C3, as amended.  The failure flags are not latched.  After every pass of \<open>loop\<close> in
  which a run is active, each flag is the one that \<open>readThermistor\<close> computes from the
  acquisition of that pass alone, whatever the flag was before and without any action of
  the operator: it is raised exactly when the temperature of that acquisition is below
  \<open>-20\<close> degrees or the failure counter is 3 or more.  This covers the passes
  in which the setpoint is infinite or NaN because a segment of the profile has the
  duration zero.  Every pass of \<open>loop\<close> yields a state, except an edit in the menus 3 and 4
  whose index lies outside the array.
\<close>

theorem fault_flags_follow_reading:
  "(\<forall>s'. loop e s = Some s' \<and> running s' \<longrightarrow>
       thermistor1Fail s' =
         failFlag (steinhart (average (adc1 (readB e))))
           (failCounter (steinhart (average (adc1 (readB e)))) (junk1 (readB e)))
       \<and> thermistor2Fail s' =
         failFlag (steinhart (average (adc2 (readB e))))
           (failCounter (steinhart (average (adc2 (readB e)))) (junk2 (readB e))))
   \<and> ((selectFlag s \<longrightarrow> menuIndex s \<noteq> 3 \<and> menuIndex s \<noteq> 4) \<longrightarrow> (\<exists>s'. loop e s = Some s'))"
proof (rule conjI)
  have "thermistor1Fail s' =
         failFlag (steinhart (average (adc1 (readB e))))
           (failCounter (steinhart (average (adc1 (readB e)))) (junk1 (readB e)))
       \<and> thermistor2Fail s' =
         failFlag (steinhart (average (adc2 (readB e))))
           (failCounter (steinhart (average (adc2 (readB e)))) (junk2 (readB e)))"
    if a: "loop e s = Some s' \<and> running s'" for s'
  proof -
  from a loop_None obtain s2 where
    s2: "(if selectFlag (s\<lparr>encSW := button e\<rparr>) then calcParameters (s\<lparr>encSW := button e\<rparr>)
          else Some (s\<lparr>encSW := button e\<rparr>)) = Some s2"
    by fastforce
  define u where "u = updateDisplay (updateCursorPosition s2)"
  define v where "v = (if running u \<and> \<not> runningBuffer u then
                   (let s = u\<lparr>runningSecondCounter := 0\<rparr>;
                        s = readThermistor (readA e) s;
                        s = s\<lparr>initTempSnapshot := (steinhart1 s + steinhart2 s) / 2\<rparr>
                    in s\<lparr>runningState := 1\<rparr>)
                 else u)"
  define w where "w = (if \<not> running v then
                   (let s = v\<lparr>pid_Setpoint := Fin 0,
                               hotPlate1PID := SetMode False (hotPlate1PID v),
                               hotPlate2PID := SetMode False (hotPlate2PID v),
                               pid1_Output := Fin 0, pid2_Output := Fin 0, pwm1 := 0, pwm2 := 0\<rparr>;
                        s = (if 10000 < millis e - time_now s
                             then readThermistor (readA e) (s\<lparr>time_now := millis e\<rparr>)
                             else s)
                    in s\<lparr>initTempSnapshot := 0\<rparr>)
                 else v)"
  define c where "c = (if running w \<and> runningMode w then reflowRunning e w
              else if running w \<and> \<not> runningMode w then constTempRunning e w
              else w)"
  have l: "loop e s = Some (c\<lparr>runningBuffer := running c\<rparr>)"
    unfolding loop_def Let_def u_def v_def w_def c_def
    by (simp only: s2 Option.bind.simps)
  then have s': "s' = c\<lparr>runningBuffer := running c\<rparr>" using a by simp
  have rc: "running c = running w"
    by (simp add: c_def reflowRunning_flags constTempRunning_flags)
  then have rw: "running w" using a s' by simp
  have "thermistor1Fail c = thermistor1Fail (readThermistor (readB e) w)"
    "thermistor2Fail c = thermistor2Fail (readThermistor (readB e) w)"
    using rw by (simp_all add: c_def reflowRunning_flags constTempRunning_flags)
  then show ?thesis
    by (simp add: s' readThermistor_flags)
  qed
  then show "\<forall>s'. loop e s = Some s' \<and> running s' \<longrightarrow>
       thermistor1Fail s' =
         failFlag (steinhart (average (adc1 (readB e))))
           (failCounter (steinhart (average (adc1 (readB e)))) (junk1 (readB e)))
       \<and> thermistor2Fail s' =
         failFlag (steinhart (average (adc2 (readB e))))
           (failCounter (steinhart (average (adc2 (readB e)))) (junk2 (readB e)))"
    by blast
next
  show "(selectFlag s \<longrightarrow> menuIndex s \<noteq> 3 \<and> menuIndex s \<noteq> 4) \<longrightarrow> (\<exists>s'. loop e s = Some s')"
  proof
    assume m: "selectFlag s \<longrightarrow> menuIndex s \<noteq> 3 \<and> menuIndex s \<noteq> 4"
    have "\<exists>s2. (if selectFlag s then calcParameters (s\<lparr>encSW := button e\<rparr>)
          else Some (s\<lparr>encSW := button e\<rparr>)) = Some s2"
    proof (cases "selectFlag s")
      case True
      then have "menuIndex (s\<lparr>encSW := button e\<rparr>) \<noteq> 3" "menuIndex (s\<lparr>encSW := button e\<rparr>) \<noteq> 4"
        using m by simp_all
      from calcParameters_total [OF this] show ?thesis using True by simp
    next
      case False
      then show ?thesis by simp
    qed
    then obtain s2 where "(if selectFlag (s\<lparr>encSW := button e\<rparr>)
          then calcParameters (s\<lparr>encSW := button e\<rparr>)
          else Some (s\<lparr>encSW := button e\<rparr>)) = Some s2" by auto
    then show "\<exists>s'. loop e s = Some s'"
      unfolding loop_def Let_def by (simp only: Option.bind.simps) blast
  qed
qed

theorem fault_flags_follow_reading_witness:
  "loop (pass False 9000 openCircuit1) erasedRun \<noteq> None
   \<and> running (the (loop (pass False 9000 openCircuit1) erasedRun))
   \<and> pid_Setpoint (the (loop (pass False 9000 openCircuit1) erasedRun)) = NaN
   \<and> thermistor1Fail (the (loop (pass False 9000 openCircuit1) erasedRun))
   \<and> \<not> thermistor2Fail (the (loop (pass False 9000 openCircuit1) erasedRun))"
proof -
  note t = fault_flags_follow_reading [of "pass False 9000 openCircuit1" erasedRun]
  have "selectFlag erasedRun \<longrightarrow> menuIndex erasedRun \<noteq> 3 \<and> menuIndex erasedRun \<noteq> 4"
    by (simp add: erasedRun_def)
  with t obtain s' where s': "loop (pass False 9000 openCircuit1) erasedRun = Some s'"
    by blast
  have r: "running s'" "pid_Setpoint s' = NaN" using erasedRun_pass by (simp_all add: s')
  from t s' r(1) have
    "thermistor1Fail s' =
         failFlag (steinhart (average (adc1 (readB (pass False 9000 openCircuit1)))))
           (failCounter (steinhart (average (adc1 (readB (pass False 9000 openCircuit1)))))
              (junk1 (readB (pass False 9000 openCircuit1))))"
    "thermistor2Fail s' =
         failFlag (steinhart (average (adc2 (readB (pass False 9000 openCircuit1)))))
           (failCounter (steinhart (average (adc2 (readB (pass False 9000 openCircuit1)))))
              (junk2 (readB (pass False 9000 openCircuit1))))"
    by blast+
  then have "thermistor1Fail s'" "\<not> thermistor2Fail s'"
    by (simp_all add: pass_def openCircuit1_def avg0 avg465 steinhart_0 steinhart_465 failFlag_def
        failCounter_def)
  then show ?thesis using r by (simp add: s')
qed

text \<open>
  Claim C2 fails on the code.  The condition \<open>thermistor1Buffer = steinhart1\<close> assigns
  instead of comparing, and the counter is an uninitialised local variable that does not
  survive the call.  First case: the sensor reports 25 degrees in four consecutive
  acquisitions (the one of \<open>setup()\<close> and three more) and the counter holds 0: no flag is
  raised.  Second case: the reading changes from \<open>-273.15\<close> to 25 degrees and the counter
  holds 3: the flag is raised although the reading is neither below \<open>-20\<close> nor repeated.
\<close>

theorem stuck_sensor_not_flagged:
  "steinhart1 booted = 25
   \<and> steinhart1 (readThermistor reading25 booted) = 25
   \<and> steinhart1 (readThermistor reading25 (readThermistor reading25 booted)) = 25
   \<and> steinhart1 (readThermistor reading25 (readThermistor reading25
         (readThermistor reading25 booted))) = 25
   \<and> \<not> thermistor1Fail (readThermistor reading25 (readThermistor reading25 booted))
   \<and> \<not> thermistor1Fail (readThermistor reading25 (readThermistor reading25
         (readThermistor reading25 booted)))
   \<and> steinhart1 (readThermistor stale3 (readThermistor openCircuit1 booted)) = 25
   \<and> steinhart1 (readThermistor openCircuit1 booted) = - 273.15
   \<and> thermistor1Fail (readThermistor stale3 (readThermistor openCircuit1 booted))"
  by (simp add: booted_eq eval_defs cong: eval_congs)

section \<open>The tuning constants of the PID objects\<close>

lemma gains_SetMode: "gains (SetMode b pid) = gains pid"
  by (simp add: gains_def SetMode_def)

lemma gains_Compute:
  "Compute pid now input setpoint output = (pid', output') \<Longrightarrow> gains pid' = gains pid"
  by (auto simp: gains_def Compute_def Let_def split: if_splits)

lemma calcParameters_gains:
  assumes "calcParameters s = Some s'"
  shows "hotPlate1PID s' = hotPlate1PID s" "hotPlate2PID s' = hotPlate2PID s"
  using assms
  by (auto simp: calcParameters_def Let_def bind_eq_Some_conv split: if_splits)

lemma reflowSwitch_gains:
  "gains (hotPlate1PID (reflowSwitch s)) = gains (hotPlate1PID s)"
  "gains (hotPlate2PID (reflowSwitch s)) = gains (hotPlate2PID s)"
  by (simp_all add: reflowSwitch_def Let_def gains_SetMode)

lemma pidLoops_gains:
  "gains (hotPlate1PID (pidLoop2 e (pidLoop1 e s))) = gains (hotPlate1PID s)"
  "gains (hotPlate2PID (pidLoop2 e (pidLoop1 e s))) = gains (hotPlate2PID s)"
  by (auto simp: pidLoop1_def pidLoop2_def Let_def split: prod.splits dest: gains_Compute)

lemma reflowRunning_gains:
  "gains (hotPlate1PID (reflowRunning e s)) = gains (hotPlate1PID s)"
  "gains (hotPlate2PID (reflowRunning e s)) = gains (hotPlate2PID s)"
  by (simp_all add: reflowRunning_unfold Let_def pidLoops_gains reflowSwitch_gains
      readThermistor_frame gains_SetMode)

lemma constTempRunning_gains:
  "gains (hotPlate1PID (constTempRunning e s)) = gains (hotPlate1PID s)"
  "gains (hotPlate2PID (constTempRunning e s)) = gains (hotPlate2PID s)"
  by (simp_all add: constTempRunning_def Let_def pidLoops_gains readThermistor_frame gains_SetMode)

lemma loop_gains:
  assumes "loop e s = Some s'"
  shows "gains (hotPlate1PID s') = gains (hotPlate1PID s)
       \<and> gains (hotPlate2PID s') = gains (hotPlate2PID s)"
proof -
  from assms(1) loop_None obtain s2 where
    s2: "(if selectFlag (s\<lparr>encSW := button e\<rparr>) then calcParameters (s\<lparr>encSW := button e\<rparr>)
          else Some (s\<lparr>encSW := button e\<rparr>)) = Some s2"
    by fastforce
  have g2: "hotPlate1PID s2 = hotPlate1PID s" "hotPlate2PID s2 = hotPlate2PID s"
    using s2 calcParameters_gains [of "s\<lparr>encSW := button e\<rparr>" s2]
    by (auto split: if_splits)
  define u where "u = updateDisplay (updateCursorPosition s2)"
  define v where "v = (if running u \<and> \<not> runningBuffer u then
                   (let s = u\<lparr>runningSecondCounter := 0\<rparr>;
                        s = readThermistor (readA e) s;
                        s = s\<lparr>initTempSnapshot := (steinhart1 s + steinhart2 s) / 2\<rparr>
                    in s\<lparr>runningState := 1\<rparr>)
                 else u)"
  define w where "w = (if \<not> running v then
                   (let s = v\<lparr>pid_Setpoint := Fin 0,
                               hotPlate1PID := SetMode False (hotPlate1PID v),
                               hotPlate2PID := SetMode False (hotPlate2PID v),
                               pid1_Output := Fin 0, pid2_Output := Fin 0, pwm1 := 0, pwm2 := 0\<rparr>;
                        s = (if 10000 < millis e - time_now s
                             then readThermistor (readA e) (s\<lparr>time_now := millis e\<rparr>)
                             else s)
                    in s\<lparr>initTempSnapshot := 0\<rparr>)
                 else v)"
  define c where "c = (if running w \<and> runningMode w then reflowRunning e w
              else if running w \<and> \<not> runningMode w then constTempRunning e w
              else w)"
  have l: "loop e s = Some (c\<lparr>runningBuffer := running c\<rparr>)"
    unfolding loop_def Let_def u_def v_def w_def c_def
    by (simp only: s2 Option.bind.simps)
  have u: "hotPlate1PID u = hotPlate1PID s" "hotPlate2PID u = hotPlate2PID s"
    by (simp_all add: u_def updateDisplay_frame updateCursorPosition_frame g2)
  have v: "hotPlate1PID v = hotPlate1PID s" "hotPlate2PID v = hotPlate2PID s"
    by (simp_all add: v_def Let_def readThermistor_frame u)
  have w: "gains (hotPlate1PID w) = gains (hotPlate1PID s)"
    "gains (hotPlate2PID w) = gains (hotPlate2PID s)"
    by (simp_all add: w_def Let_def readThermistor_frame v gains_SetMode)
  have "gains (hotPlate1PID c) = gains (hotPlate1PID s)
       \<and> gains (hotPlate2PID c) = gains (hotPlate2PID s)"
    using w by (simp add: c_def reflowRunning_gains constTempRunning_gains)
  then show ?thesis using l assms by auto
qed

lemma isr_gains:
  "hotPlate1PID (isrEncCLK clk dt s) = hotPlate1PID s"
  "hotPlate2PID (isrEncCLK clk dt s) = hotPlate2PID s"
  "hotPlate1PID (isrEncDT clk dt s) = hotPlate1PID s"
  "hotPlate2PID (isrEncDT clk dt s) = hotPlate2PID s"
  by (simp_all add: isrEncCLK_def isrEncDT_def encoderCount_def Let_def)

lemma run_gains:
  "run evs s = Some s' \<Longrightarrow>
     gains (hotPlate1PID s') = gains (hotPlate1PID s)
     \<and> gains (hotPlate2PID s') = gains (hotPlate2PID s)"
proof (induction evs s rule: run.induct)
  case (2 e evs s)
  then obtain a where a: "loop e s = Some a" "run evs a = Some s'"
    by (auto simp: bind_eq_Some_conv)
  from "2.IH" [OF a] loop_gains [OF a(1)] show ?case by simp
qed (simp_all add: isr_gains)

lemma tuneKp1_eq:
  "run tuneKp1 booted =
    Some
     \<lparr>steinhart1 = 25, steinhart2 = 25, T1Disp = 0, T2Disp = 0,
        thermistor1Buffer = 25, thermistor2Buffer = 25,
        thermistor1Fail = False, thermistor2Fail = False, tempCounter = 0,
        menuCounter = 1, selectCounter = 0, encSW = True, menuIndex = 4,
        selectIndexMax = 7, running = False, selectFlag = False,
        startConfirm = False, wrkInt = 0, wrkDouble = 0,
        parametersReflow = [115, 100, 145, 155, 185, 180, 35],
        parametersPID =
          [331 / 100, 1 / 50, 69 / 20, 33 / 10, 1 / 50, 69 / 20],
        parametersPIDint = [0, 0, 0, 0, 0, 0], pid_Setpoint = Fin 0,
        pid1_Input = 0, pid1_Output = Fin 0, pid2_Input = 0, pid2_Output = Fin 0,
        runningBuffer = False, runningState = 0, time_now = 0,
        runningSecondCounter = 0, initTempSnapshot = 0, constTempSP = 35,
        runningMode = False,
        hotPlate1PID =
          \<lparr>inAuto = False, Kp = 33 / 10, Ki = 1 / 50, Kd = 69 / 20,
             integral = Fin 0, prevError = Fin 0, lastTime = 0, SampleTime = 200,
             outMin = 0, outMax = 255\<rparr>,
        hotPlate2PID =
          \<lparr>inAuto = False, Kp = 33 / 10, Ki = 1 / 50, Kd = 69 / 20,
             integral = Fin 0, prevError = Fin 0, lastTime = 0, SampleTime = 200,
             outMin = 0, outMax = 255\<rparr>,
        EEPROM = stored, pwm1 = 0, pwm2 = 0\<rparr>"
  by (simp add: tuneKp1_def booted_eq eval_defs cong: eval_congs)

text \<open>
  Claim C6 fails on the code.  From the main menu the operator opens the PID menu, selects
  \<open>Kp1\<close>, turns the encoder one step and confirms: \<open>calcParameters\<close> writes 3.31 into
  \<open>parametersPID\<close>, but the PID object of plate 1 keeps 3.30, the value its constructor was
  given.  No pass of \<open>loop\<close> and no interrupt routine changes the constants of the objects
  (lemma \<open>run_gains\<close>), so every later control tick computes with 3.30.
\<close>

theorem committed_tuning_not_used:
  "run tuneKp1 booted \<noteq> None
   \<and> parametersPID (the (run tuneKp1 booted)) ! 0 = 3.31
   \<and> \<not> selectFlag (the (run tuneKp1 booted))
   \<and> Kp (hotPlate1PID (the (run tuneKp1 booted))) = 3.30"
  by (simp add: tuneKp1_eq)

section \<open>Encoder interrupts during an edit\<close>

lemma calcParameters_menu3:
  "menuIndex s = 3 \<Longrightarrow> calcParameters s = Option.bind (calcReflowWork s) calcReflowCommit"
  by (simp add: calcParameters_def calcReflowWork_def calcReflowCommit_def Let_def)

text \<open>
  Claim C9 fails on the code.  \<open>calcParameters\<close> reads \<open>selectCounter\<close> and clears it with
  the interrupts enabled.  With 5 steps pending on the ramp temperature 115 and the button
  confirming: a step of the encoder served before \<open>calcParameters\<close> is counted (121 is
  stored), one served after it stays in the counter (120 is stored, the counter holds 1),
  but one served between the read and the clearing is lost: 120 is stored and the counter
  is 0.
\<close>

theorem encoder_step_lost:
  "menuIndex editing = 3
   \<and> calcParameters editing = Option.bind (calcReflowWork editing) calcReflowCommit
   \<and> parametersReflow (the (calcParameters (isrEncCLK True False editing))) ! 0 = 121
   \<and> selectCounter (the (calcParameters (isrEncCLK True False editing))) = 0
   \<and> parametersReflow (the (calcParameters editing)) ! 0 = 120
   \<and> selectCounter (isrEncCLK True False (the (calcParameters editing))) = 1
   \<and> calcReflowInterrupted editing \<noteq> None
   \<and> parametersReflow (the (calcReflowInterrupted editing)) ! 0 = 120
   \<and> selectCounter (the (calcReflowInterrupted editing)) = 0"
proof -
  have m: "menuIndex editing = 3" by (simp add: editing_def)
  show ?thesis
    by (simp add: m calcParameters_menu3)
       (simp add: editing_def booted_eq calcParameters_def calcReflowInterrupted_def
         calcReflowWork_def calcReflowCommit_def isrEncCLK_def encoderCount_def Let_def
         intOfUint8_def)
qed

end
